theory Spec2Isabelle
  imports Complex_Main "HOL-Library.Log_Nat"
begin

section \<open>Numbers, times and Python built-ins\<close>

text \<open>
  The integration computes on Python floats, which are IEEE binary64 numbers. A float is
  represented by the rational number it denotes, and every float operation of the source
  is the exact operation followed by \<open>fl\<close>, the rounding to the nearest binary64 number
  (53 significant bits, a tie going to the even significand). The exponent range is not
  bounded: infinities, NaN and subnormal numbers are outside the model. The values the
  source computes on are floats, that is rationals \<open>x\<close> with \<open>fl x = x\<close>, and a decimal
  literal of the source such as \<open>0.3\<close> is \<open>fl (3 / 10)\<close>.

  A \<open>datetime\<close> is a number of seconds on one fixed time line, so that
  \<open>(a - b).total_seconds()\<close> is \<open>fl (a - b)\<close>.
\<close>

type_synonym datetime = rat

text \<open>
  Definitions carry the names of the source. A leading underscore is dropped
  (\<open>_recalculate\<close> is \<open>recalculate\<close>), and a record field that another record
  also has carries a short prefix.
\<close>

text \<open>
  Python's \<open>round(x)\<close> rounds to the nearest integer and a tie to the even neighbour.
\<close>

definition py_round :: "rat \<Rightarrow> int" where
  "py_round x =
     (let f = \<lfloor>x\<rfloor>; d = x - of_int f
      in if d < 1 / 2 then f
         else if 1 / 2 < d then f + 1
         else if even f then f else f + 1)"

text \<open>
  The binary exponent of the last place of a positive \<open>x\<close>: with \<open>e = ulp_exp x\<close>,
  \<open>2 ^ (e + 52) \<le> x < 2 ^ (e + 53)\<close>. It is found from the bit lengths of the numerator
  and the denominator.
\<close>

definition ulp_exp :: "rat \<Rightarrow> int" where
  "ulp_exp x =
     (let (p, q) = quotient_of \<bar>x\<bar>; k = bitlen p - bitlen q
      in (if 2 powi k \<le> \<bar>x\<bar> then k else k - 1) - 52)"

definition flp :: "rat \<Rightarrow> rat" where
  "flp x = (let u = 2 powi ulp_exp x in of_int (py_round (x / u)) * u)"

definition fl :: "rat \<Rightarrow> rat" where
  "fl x = (if x = 0 then 0 else if x < 0 then - flp (- x) else flp x)"

text \<open>The float operations \<open>+\<close>, \<open>-\<close>, \<open>*\<close> and \<open>/\<close>.\<close>

definition fadd :: "rat \<Rightarrow> rat \<Rightarrow> rat" where
  "fadd a b = fl (a + b)"

definition fsub :: "rat \<Rightarrow> rat \<Rightarrow> rat" where
  "fsub a b = fl (a - b)"

definition fmul :: "rat \<Rightarrow> rat \<Rightarrow> rat" where
  "fmul a b = fl (a * b)"

definition fdiv :: "rat \<Rightarrow> rat \<Rightarrow> rat" where
  "fdiv a b = fl (a / b)"

text \<open>
  \<open>round(x, n)\<close> on a float: the value of \<open>x\<close> rounded at the n-th decimal place, a tie
  going to the even digit, and the float nearest to that decimal.
\<close>

definition round_nd :: "rat \<Rightarrow> nat \<Rightarrow> rat" where
  "round_nd x n = of_int (py_round (x * 10 ^ n)) / 10 ^ n"

definition round_float :: "rat \<Rightarrow> nat \<Rightarrow> rat" where
  "round_float x n = fl (round_nd x n)"

text \<open>
  \<open>statistics.mean\<close> and \<open>statistics.median\<close>. Both raise \<open>StatisticsError\<close> on an
  empty sequence; every call in the source is guarded by a non-emptiness test, and the
  models below keep those guards, so the functions are only applied to non-empty lists.
  \<open>statistics.mean\<close> adds the floats as exact fractions and rounds once, when it divides;
  \<open>statistics.median\<close> of an even number of floats adds the two middle ones and halves
  the sum, in float arithmetic.
\<close>

definition mean :: "rat list \<Rightarrow> rat" where
  "mean xs = fl (sum_list xs / of_nat (length xs))"

definition median :: "rat list \<Rightarrow> rat" where
  "median xs =
     (let ys = sort xs; n = length ys
      in if odd n then ys ! (n div 2)
         else fdiv (fadd (ys ! (n div 2 - 1)) (ys ! (n div 2))) 2)"

fun min_list :: "rat list \<Rightarrow> rat" where
  "min_list [] = 0"
| "min_list (x # xs) = fold min xs x"

fun max_list :: "rat list \<Rightarrow> rat" where
  "max_list [] = 0"
| "max_list (x # xs) = fold max xs x"

text \<open>The slice \<open>xs[-n:]\<close>: the last \<open>n\<close> elements, or all of \<open>xs\<close> when it is shorter.\<close>

definition last_n :: "nat \<Rightarrow> 'a list \<Rightarrow> 'a list" where
  "last_n n xs = drop (length xs - n) xs"

section \<open>thermal\_model.py\<close>

record HeatingSession =
  date :: string
  temp_start :: rat
  temp_end :: rat
  temp_ext_avg :: rat
  delta_temp :: rat
  duration_min :: rat
  speed_degc_per_min :: rat
  anticipated :: bool
  points :: "(string \<times> string) list list"

text \<open>
  A persisted session dictionary: each key is present with a value or missing.
\<close>

record session_dict =
  d_date :: "string option"
  d_temp_start :: "rat option"
  d_temp_end :: "rat option"
  d_temp_ext_avg :: "rat option"
  d_delta_temp :: "rat option"
  d_duration_min :: "rat option"
  d_speed_degc_per_min :: "rat option"
  d_anticipated :: "bool option"

definition dict_get :: "'a option \<Rightarrow> 'a \<Rightarrow> 'a" where
  "dict_get v dflt = (case v of None \<Rightarrow> dflt | Some x \<Rightarrow> x)"

definition from_dict :: "session_dict \<Rightarrow> HeatingSession" where
  "from_dict data =
     \<lparr> date = dict_get (d_date data) [],
       temp_start = dict_get (d_temp_start data) 0,
       temp_end = dict_get (d_temp_end data) 0,
       temp_ext_avg = dict_get (d_temp_ext_avg data) 0,
       delta_temp = dict_get (d_delta_temp data) 0,
       duration_min = dict_get (d_duration_min data) 0,
       speed_degc_per_min = dict_get (d_speed_degc_per_min data) 0,
       anticipated = dict_get (d_anticipated data) False,
       points = [] \<rparr>"

text \<open>
  The \<open>_inertia\<close> dictionary is either empty (\<open>None\<close> here) or holds all seven keys.
  The buckets of \<open>by_ext_temp\<close> are keyed by the bucket's integer (the source keys them
  by its decimal string), in order of first insertion.
\<close>

record inertia_stats =
  i_avg_speed :: rat
  i_median_speed :: rat
  i_min_speed :: rat
  i_max_speed :: rat
  i_num_sessions :: nat
  i_min_per_deg :: "rat option"
  i_by_ext_temp :: "(int \<times> rat) list"

record ThermalModel =
  sessions :: "HeatingSession list"
  warmup_ignore_min :: rat
  inertia :: "inertia_stats option"

definition ThermalModel_init :: "rat \<Rightarrow> ThermalModel" where
  "ThermalModel_init w = \<lparr> sessions = [], warmup_ignore_min = w, inertia = None \<rparr>"

text \<open>The loop that files each valid session's speed under its outdoor bucket.\<close>

fun by_ext_append :: "(int \<times> rat list) list \<Rightarrow> int \<Rightarrow> rat \<Rightarrow> (int \<times> rat list) list" where
  "by_ext_append [] b v = [(b, [v])]"
| "by_ext_append ((k, vs) # rest) b v =
     (if k = b then (k, vs @ [v]) # rest else (k, vs) # by_ext_append rest b v)"

definition by_ext_of :: "HeatingSession list \<Rightarrow> (int \<times> rat list) list" where
  "by_ext_of valid =
     fold (\<lambda>s acc. by_ext_append acc (py_round (fdiv (temp_ext_avg s) 5) * 5)
                    (speed_degc_per_min s))
       valid []"

definition recalculate :: "ThermalModel \<Rightarrow> ThermalModel" where
  "recalculate m =
     (if sessions m = [] then m\<lparr>inertia := None\<rparr>
      else
        let valid = filter (\<lambda>s. 0 < speed_degc_per_min s \<and> 5 \<le> duration_min s) (sessions m)
        in if valid = [] then m\<lparr>inertia := None\<rparr>
           else
             let speeds = map speed_degc_per_min valid;
                 by_ext_avg = map (\<lambda>(k, v). (k, round_float (mean v) 5)) (by_ext_of valid)
             in m\<lparr>inertia := Some
                  \<lparr> i_avg_speed = round_float (mean speeds) 5,
                    i_median_speed = round_float (median speeds) 5,
                    i_min_speed = round_float (min_list speeds) 5,
                    i_max_speed = round_float (max_list speeds) 5,
                    i_num_sessions = length valid,
                    i_min_per_deg =
                      (if 0 < mean speeds then Some (round_float (fdiv 1 (mean speeds)) 1)
                       else None),
                    i_by_ext_temp = by_ext_avg \<rparr>\<rparr>)"

definition load_sessions :: "ThermalModel \<Rightarrow> session_dict list \<Rightarrow> ThermalModel" where
  "load_sessions m data = recalculate (m\<lparr>sessions := map from_dict data\<rparr>)"

definition add_session :: "ThermalModel \<Rightarrow> HeatingSession \<Rightarrow> ThermalModel" where
  "add_session m session =
     (let appended = sessions m @ [session];
          kept = (if 100 < length appended then last_n 100 appended else appended)
      in recalculate (m\<lparr>sessions := kept\<rparr>))"

definition avg_speed :: "ThermalModel \<Rightarrow> rat option" where
  "avg_speed m = (case inertia m of None \<Rightarrow> None | Some i \<Rightarrow> Some (i_avg_speed i))"

definition get_speed_for_ext_temp :: "ThermalModel \<Rightarrow> rat \<Rightarrow> rat option" where
  "get_speed_for_ext_temp m ext_temp =
     (if sessions m = [] then None
      else
        let bucket = py_round (fdiv ext_temp 5) * 5;
            nearby_sessions =
              filter (\<lambda>s. \<bar>fsub (temp_ext_avg s) (of_int bucket)\<bar> \<le> 5) (sessions m);
            speeds = map speed_degc_per_min
                       (filter (\<lambda>s. 0 < speed_degc_per_min s) nearby_sessions)
        in if nearby_sessions \<noteq> [] \<and> speeds \<noteq> [] then Some (median speeds)
           else avg_speed m)"

text \<open>
  \<open>estimate_time_to_target\<close> returns a number of minutes, or \<open>None\<close> when the model has
  no usable speed.
\<close>

definition estimate_time_to_target :: "ThermalModel \<Rightarrow> rat \<Rightarrow> rat \<Rightarrow> rat \<Rightarrow> rat \<Rightarrow> rat option" where
  "estimate_time_to_target m current_temp target_temp ext_temp margin =
     (let delta = fsub target_temp current_temp
      in if delta \<le> 0 then Some 0
         else case get_speed_for_ext_temp m ext_temp of
                None \<Rightarrow> None
              | Some speed \<Rightarrow>
                  if speed \<le> 0 then None
                  else let base_minutes = fdiv delta speed
                       in Some (round_float (fmul base_minutes margin) 0))"

section \<open>feedback.py\<close>

definition MARGIN_ADJUST_STEP :: rat where
  "MARGIN_ADJUST_STEP = fl (2 / 100)"

definition MAX_HISTORY :: nat where
  "MAX_HISTORY = 30"

text \<open>
  The three text fields of a result (\<open>date\<close>, \<open>target_time\<close>, \<open>actual_arrival_time\<close>)
  are kept as the times they are rendered from. \<open>success\<close> is read back from storage
  without validation and tested against \<open>None\<close> by the suggestion, so it is optional here.
  Field names carry the prefix \<open>res_\<close> where another record has the same field.
\<close>

record AnticipationResult =
  res_date :: datetime
  res_target_temp :: rat
  actual_temp_at_target_time :: rat
  res_temp_at_start :: rat
  res_target_time :: datetime
  actual_arrival_time :: "datetime option"
  minutes_early :: rat
  margin_used :: rat
  llm_adjustment :: rat
  ext_temp_avg :: rat
  success :: "bool option"

record pending_start =
  p_target_temp :: rat
  p_target_time :: datetime
  p_temp_at_start :: rat
  p_margin_used :: rat
  p_llm_adjustment :: rat
  p_ext_temp :: rat
  p_started_at :: datetime

record FeedbackLoop =
  fb_zone_name :: string
  history :: "AnticipationResult list"
  pending :: "pending_start option"

definition FeedbackLoop_init :: "string \<Rightarrow> FeedbackLoop" where
  "FeedbackLoop_init z = \<lparr> fb_zone_name = z, history = [], pending = None \<rparr>"

definition start_tracking ::
  "FeedbackLoop \<Rightarrow> datetime \<Rightarrow> rat \<Rightarrow> datetime \<Rightarrow> rat \<Rightarrow> rat \<Rightarrow> rat \<Rightarrow> rat \<Rightarrow> FeedbackLoop" where
  "start_tracking fb now target_temp target_time temp_at_start margin_used' llm_adjustment' ext_temp =
     fb\<lparr>pending := Some
       \<lparr> p_target_temp = target_temp, p_target_time = target_time,
         p_temp_at_start = temp_at_start, p_margin_used = margin_used',
         p_llm_adjustment = llm_adjustment', p_ext_temp = ext_temp,
         p_started_at = now \<rparr>\<rparr>"

text \<open>
  \<open>record_result\<close> returns the result it appended (or \<open>None\<close> when nothing was
  pending) together with the updated loop; \<open>now\<close> is the clock reading of the call.
\<close>

definition record_result ::
  "FeedbackLoop \<Rightarrow> datetime \<Rightarrow> rat \<Rightarrow> bool \<Rightarrow> AnticipationResult option \<times> FeedbackLoop" where
  "record_result fb now current_temp reached_target =
     (case pending fb of
        None \<Rightarrow> (None, fb)
      | Some pend \<Rightarrow>
          let target_time = p_target_time pend;
              minutes_early' =
                (if reached_target then fdiv (fl (target_time - now)) 60
                 else - fdiv (fl (now - target_time)) 60);
              actual_arrival = (if reached_target then Some now else None);
              result =
                \<lparr> res_date = now,
                  res_target_temp = p_target_temp pend,
                  actual_temp_at_target_time = current_temp,
                  res_temp_at_start = p_temp_at_start pend,
                  res_target_time = target_time,
                  actual_arrival_time = actual_arrival,
                  minutes_early = round_float minutes_early' 1,
                  margin_used = p_margin_used pend,
                  llm_adjustment = p_llm_adjustment pend,
                  ext_temp_avg = p_ext_temp pend,
                  success = Some reached_target \<rparr>;
              appended = history fb @ [result];
              kept = (if MAX_HISTORY < length appended then last_n MAX_HISTORY appended
                      else appended)
          in (Some result, fb\<lparr>history := kept, pending := None\<rparr>))"

definition get_margin_suggestion :: "FeedbackLoop \<Rightarrow> rat option" where
  "get_margin_suggestion fb =
     (let recent = filter (\<lambda>r. success r \<noteq> None) (last_n 10 (history fb))
      in if length recent < 3 then None
         else
           let avg_early = mean (map minutes_early recent);
               success_rate =
                 fdiv (of_nat (length (filter (\<lambda>r. success r = Some True) recent)))
                   (of_nat (length recent));
               adjustment =
                 (if 10 < avg_early then fmul (- MARGIN_ADJUST_STEP) 2
                  else if 5 < avg_early then - MARGIN_ADJUST_STEP
                  else if avg_early < 0 then fmul MARGIN_ADJUST_STEP 2
                  else if avg_early < 2 then MARGIN_ADJUST_STEP
                  else 0);
               adjustment' =
                 (if success_rate < fl (7 / 10) then max adjustment (fmul MARGIN_ADJUST_STEP 2)
                  else adjustment)
           in Some (round_float adjustment' 3))"

section \<open>Home Assistant states\<close>

text \<open>
  An attribute value of an entity is any JSON-like Python value. A Boolean attribute is
  the number it counts as (\<open>True\<close> is 1). \<open>truthy\<close> is Python's truth test, which
  decides the idiom \<open>a or b\<close>.
\<close>

datatype pyval = PNone | PNum rat | PStr string | PList "pyval list" | PDict "(string \<times> pyval) list"

fun truthy :: "pyval \<Rightarrow> bool" where
  "truthy PNone = False"
| "truthy (PNum x) = (x \<noteq> 0)"
| "truthy (PStr s) = (s \<noteq> [])"
| "truthy (PList xs) = (xs \<noteq> [])"
| "truthy (PDict kvs) = (kvs \<noteq> [])"

definition py_or :: "pyval \<Rightarrow> pyval \<Rightarrow> pyval" where
  "py_or a b = (if truthy a then a else b)"

text \<open>
  \<open>float(v)\<close>: \<open>None\<close> stands for the \<open>ValueError\<close> or \<open>TypeError\<close> that every caller
  catches. How Python reads a number out of a text is not modelled: it is the parameter
  \<open>pf\<close> of the functions that convert.
\<close>

fun py_float :: "(string \<Rightarrow> rat option) \<Rightarrow> pyval \<Rightarrow> rat option" where
  "py_float pf (PNum x) = Some x"
| "py_float pf (PStr s) = pf s"
| "py_float pf PNone = None"
| "py_float pf (PList xs) = None"
| "py_float pf (PDict kvs) = None"

record ha_state =
  st_state :: string
  st_attributes :: "string \<rightharpoonup> pyval"

definition attrs_get :: "ha_state \<Rightarrow> string \<Rightarrow> pyval" where
  "attrs_get st k = (case st_attributes st k of None \<Rightarrow> PNone | Some v \<Rightarrow> v)"

definition STATE_UNAVAILABLE :: string where
  "STATE_UNAVAILABLE = ''unavailable''"

definition STATE_UNKNOWN :: string where
  "STATE_UNKNOWN = ''unknown''"

text \<open>
  What a component sees of Home Assistant during one call: the state machine's entities,
  and whether the service call \<open>climate.set_temperature\<close> returns or raises.
\<close>

record HomeAssistant =
  states :: "string \<rightharpoonup> ha_state"
  set_temperature_ok :: bool

section \<open>anticipation.py\<close>

record AnticipationState =
  active :: bool
  target_consigne :: "rat option"
  target_time :: "datetime option"
  minutes_needed :: "rat option"
  minutes_until_target :: "rat option"
  optimal_start_time :: "datetime option"
  started_at :: "datetime option"
  temp_at_start :: "rat option"

definition AnticipationState_init :: AnticipationState where
  "AnticipationState_init =
     \<lparr> active = False, target_consigne = None, target_time = None, minutes_needed = None,
       minutes_until_target = None, optimal_start_time = None, started_at = None,
       temp_at_start = None \<rparr>"

record AnticipationEngine =
  zone_name :: string
  climate_entity :: string
  schedule_entity :: "string option"
  anti_short_cycle :: bool
  min_off_time_sec :: int
  state :: AnticipationState
  last_consigne_sent :: "rat option"
  last_consigne_sent_time :: "datetime option"

definition AnticipationEngine_init ::
  "string \<Rightarrow> string \<Rightarrow> string option \<Rightarrow> bool \<Rightarrow> int \<Rightarrow> AnticipationEngine" where
  "AnticipationEngine_init zone climate schedule asc min_off =
     \<lparr> zone_name = zone, climate_entity = climate, schedule_entity = schedule,
       anti_short_cycle = asc, min_off_time_sec = min_off, state = AnticipationState_init,
       last_consigne_sent = None, last_consigne_sent_time = None \<rparr>"

text \<open>
  \<open>_send_consigne\<close> returns the engine after the call and the setpoint commands handed
  to the actuator. When the service call raises, the exception is caught and logged and
  the two \<open>_last_consigne_sent\<close> fields are not written. The clock is read once per
  evaluation: the \<open>now\<close> of \<open>_send_consigne\<close> is the \<open>now\<close> of its caller.
\<close>

definition send_consigne ::
  "AnticipationEngine \<Rightarrow> HomeAssistant \<Rightarrow> datetime \<Rightarrow> rat \<Rightarrow> AnticipationEngine \<times> rat list" where
  "send_consigne eng hass now temperature =
     (if set_temperature_ok hass
      then (eng\<lparr>last_consigne_sent := Some temperature, last_consigne_sent_time := Some now\<rparr>,
            [temperature])
      else (eng, [temperature]))"

definition deactivate :: "AnticipationEngine \<Rightarrow> AnticipationEngine" where
  "deactivate eng =
     eng\<lparr>state := AnticipationState_init, last_consigne_sent := None,
         last_consigne_sent_time := None\<rparr>"

definition get_current_consigne ::
  "AnticipationEngine \<Rightarrow> HomeAssistant \<Rightarrow> (string \<Rightarrow> rat option) \<Rightarrow> rat option" where
  "get_current_consigne eng hass pf =
     (case schedule_entity eng of
        None \<Rightarrow> None
      | Some ent \<Rightarrow>
          if ent = [] then None
          else (case states hass ent of
                  None \<Rightarrow> None
                | Some st \<Rightarrow>
                    if st_state st = STATE_UNAVAILABLE \<or> st_state st = STATE_UNKNOWN then None
                    else pf (st_state st)))"

definition get_climate_setpoint ::
  "AnticipationEngine \<Rightarrow> HomeAssistant \<Rightarrow> (string \<Rightarrow> rat option) \<Rightarrow> rat option" where
  "get_climate_setpoint eng hass pf =
     (case states hass (climate_entity eng) of
        None \<Rightarrow> None
      | Some st \<Rightarrow>
          (case attrs_get st ''temperature'' of
             PNone \<Rightarrow> None
           | temp \<Rightarrow> py_float pf temp))"

text \<open>
  The decision \<open>should_start\<close> of \<open>async_evaluate\<close>, with the target time it estimates;
  the three arguments after \<open>now\<close> are known to be present where the source computes it.
\<close>

definition decide_start ::
  "AnticipationEngine \<Rightarrow> HomeAssistant \<Rightarrow> (string \<Rightarrow> rat option) \<Rightarrow> datetime \<Rightarrow>
   rat \<Rightarrow> rat \<Rightarrow> datetime option \<Rightarrow> bool \<times> datetime option" where
  "decide_start eng hass pf now mn nc tt =
     (if tt \<noteq> None \<and> 0 < mn
      then
        let minutes_until_transition = (the tt - now) / 60;
            minutes_until_start = minutes_until_transition - mn
        in if minutes_until_start \<le> 2 then (True, tt)
           else if minutes_until_transition < 0 then (True, tt)
           else (False, tt)
      else
        (case get_current_consigne eng hass pf of
           None \<Rightarrow> (False, tt)
         | Some current_sched \<Rightarrow>
             if current_sched + 3 / 10 < nc then (True, Some (now + 60 * mn))
             else (False, tt)))"

text \<open>
  The resend test of an engine that stays active: no command on record, or the last one
  more than 600 seconds old, or the actuator's reported setpoint more than 0.3 away from
  the engine's target.
\<close>

definition should_resend ::
  "AnticipationEngine \<Rightarrow> HomeAssistant \<Rightarrow> (string \<Rightarrow> rat option) \<Rightarrow> datetime \<Rightarrow> bool" where
  "should_resend eng hass pf now =
     (let by_interval =
            (case last_consigne_sent_time eng of None \<Rightarrow> True | Some t \<Rightarrow> 600 < now - t);
          drifted =
            (case (get_climate_setpoint eng hass pf, target_consigne (state eng)) of
               (Some climate_setpoint, Some tc) \<Rightarrow> 3 / 10 < \<bar>climate_setpoint - tc\<bar>
             | _ \<Rightarrow> False)
      in drifted \<or> by_interval)"

text \<open>
  \<open>async_evaluate\<close> returns the engine after the call (its \<open>state\<close> is the value the
  source returns) and the commands sent. \<open>temp_outdoor\<close> and \<open>effective_margin\<close> are
  accepted and not read, as in the source. The engine decides by comparing its inputs
  with thresholds; in this section the comparisons and the differences of times are
  written on the exact values, without \<open>fl\<close>.
\<close>

definition async_evaluate ::
  "AnticipationEngine \<Rightarrow> HomeAssistant \<Rightarrow> (string \<Rightarrow> rat option) \<Rightarrow> datetime \<Rightarrow>
   rat option \<Rightarrow> rat option \<Rightarrow> rat option \<Rightarrow> rat option \<Rightarrow> bool \<Rightarrow> datetime option \<Rightarrow> rat \<Rightarrow>
   AnticipationEngine \<times> rat list" where
  "async_evaluate eng hass pf now temp_indoor temp_outdoor minutes_needed' next_consigne
     is_anti_cycle_active target_time' effective_margin =
     (if temp_indoor = None \<or> next_consigne = None \<or> minutes_needed' = None
      then (if active (state eng) then (eng\<lparr>state := (state eng)\<lparr>active := False\<rparr>\<rparr>, [])
            else (eng, []))
      else
        let ti = the temp_indoor; nc = the next_consigne; mn = the minutes_needed'
        in if nc - 2 / 10 \<le> ti
           then (if active (state eng) then (deactivate eng, []) else (eng, []))
           else if is_anti_cycle_active \<and> \<not> active (state eng) then (eng, [])
           else
             let (should_start, estimated_target_time) = decide_start eng hass pf now mn nc target_time'
             in if should_start \<and> \<not> active (state eng)
                then
                  let delta = nc - ti
                  in if 3 / 10 < delta \<and> 0 < mn
                     then
                       let ett = (case estimated_target_time of
                                    None \<Rightarrow> now + 60 * mn | Some t \<Rightarrow> t)
                       in send_consigne
                            (eng\<lparr>state :=
                               \<lparr> active = True, target_consigne = Some nc,
                                 target_time = Some ett, minutes_needed = Some mn,
                                 minutes_until_target = Some mn,
                                 optimal_start_time = Some now, started_at = Some now,
                                 temp_at_start = Some ti \<rparr>\<rparr>)
                            hass now nc
                     else (eng, [])
                else if active (state eng)
                then
                  if should_start \<or> (nc \<noteq> 0 \<and> ti < nc - 2 / 10)
                  then
                    let remaining = (case target_time (state eng) of
                                       None \<Rightarrow> 0 | Some t \<Rightarrow> (t - now) / 60);
                        eng1 = eng\<lparr>state := (state eng)\<lparr>minutes_until_target := Some (max 0 remaining)\<rparr>\<rparr>
                    in (case target_consigne (state eng1) of
                          None \<Rightarrow> (eng1, [])
                        | Some tc \<Rightarrow>
                            if should_resend eng1 hass pf now \<and> tc \<noteq> 0
                            then send_consigne eng1 hass now tc
                            else (eng1, []))
                  else (deactivate eng, [])
                else (eng, []))"

section \<open>schedule\_parser.py\<close>

text \<open>
  Field names carry the prefix \<open>nt_\<close> where another record has the same field.
\<close>

record NextTransition =
  nt_target_time :: "datetime option"
  nt_target_temp :: rat
  current_temp_schedule :: rat
  source :: string

definition is_heating_up :: "NextTransition \<Rightarrow> bool" where
  "is_heating_up t = (fadd (current_temp_schedule t) (fl (3 / 10)) < nt_target_temp t)"

text \<open>
  \<open>_parse_schedule_state\<close> first looks for a list of events on the entity, and gives up
  when there is none. What it does with a list it found (parsing each event's times for
  today and tomorrow and scanning them) is the parameter \<open>resolve\<close>.
\<close>

fun is_list :: "pyval \<Rightarrow> bool" where
  "is_list (PList xs) = True"
| "is_list v = False"

definition parse_schedule_state ::
  "(pyval \<Rightarrow> datetime \<Rightarrow> rat \<Rightarrow> NextTransition option) \<Rightarrow> datetime \<Rightarrow> ha_state \<Rightarrow> rat \<Rightarrow>
   NextTransition option" where
  "parse_schedule_state resolve now st current_consigne =
     (let events = attrs_get st ''events''
      in if \<not> truthy events \<or> \<not> is_list events
         then
           let events' = py_or (attrs_get st ''schedule'') (attrs_get st ''entries'')
           in if \<not> truthy events' then None else resolve events' now current_consigne
         else resolve events now current_consigne)"

definition parse_vtherm_attrs ::
  "(string \<Rightarrow> rat option) \<Rightarrow> ha_state \<Rightarrow> rat \<Rightarrow> NextTransition option" where
  "parse_vtherm_attrs pf st current_consigne =
     (let comfort_temp = py_or (attrs_get st ''comfort_temp'') (attrs_get st ''comfort'');
          eco_temp = py_or (attrs_get st ''eco_temp'') (attrs_get st ''eco'')
      in if comfort_temp \<noteq> PNone \<and> eco_temp \<noteq> PNone
         then
           (case py_float pf comfort_temp of
              None \<Rightarrow> None
            | Some comfort \<Rightarrow>
                (case py_float pf eco_temp of
                   None \<Rightarrow> None
                 | Some eco \<Rightarrow>
                     if current_consigne \<le> fadd eco (fl (3 / 10))
                        \<and> fadd eco (fl (3 / 10)) < comfort
                     then Some \<lparr> nt_target_time = None, nt_target_temp = comfort,
                                 current_temp_schedule = current_consigne,
                                 source = ''vtherm_preset'' \<rparr>
                     else None))
         else None)"

definition get_next_heating_transition ::
  "string option \<Rightarrow> HomeAssistant \<Rightarrow> (string \<Rightarrow> rat option) \<Rightarrow>
   (pyval \<Rightarrow> datetime \<Rightarrow> rat \<Rightarrow> NextTransition option) \<Rightarrow> datetime \<Rightarrow> NextTransition option" where
  "get_next_heating_transition sched_entity hass pf resolve now =
     (case sched_entity of
        None \<Rightarrow> None
      | Some ent \<Rightarrow>
          if ent = [] then None
          else (case states hass ent of
                  None \<Rightarrow> None
                | Some st \<Rightarrow>
                    if st_state st = STATE_UNAVAILABLE \<or> st_state st = STATE_UNKNOWN then None
                    else (case pf (st_state st) of
                            None \<Rightarrow> None
                          | Some current_consigne \<Rightarrow>
                              (case parse_schedule_state resolve now st current_consigne of
                                 Some transition \<Rightarrow> Some transition
                               | None \<Rightarrow>
                                   (case parse_vtherm_attrs pf st current_consigne of
                                      Some transition \<Rightarrow> Some transition
                                    | None \<Rightarrow>
                                        Some \<lparr> nt_target_time = None,
                                               nt_target_temp = current_consigne,
                                               current_temp_schedule = current_consigne,
                                               source = ''current_only'' \<rparr>)))))"

section \<open>Notions of the specification and concrete data\<close>

text \<open>
  The scenario of the specification: three recorded sessions whose speeds are the floats
  0.05, 0.06 and 0.055 degrees per minute, at an outdoor temperature of 5 degrees.
\<close>

definition scenario_session :: "rat \<Rightarrow> HeatingSession" where
  "scenario_session v =
     \<lparr> date = ''2024-01-15 06:30'', temp_start = 18, temp_end = 20, temp_ext_avg = 5,
       delta_temp = 2, duration_min = round_float (fdiv 2 v) 1, speed_degc_per_min = v,
       anticipated = False, points = [] \<rparr>"

definition scenario_model :: ThermalModel where
  "scenario_model =
     add_session
       (add_session
          (add_session (ThermalModel_init 0) (scenario_session (fl (5 / 100))))
          (scenario_session (fl (6 / 100))))
       (scenario_session (fl (55 / 1000)))"

text \<open>
  The specification's margin policy, in its own words: the suggestion as a function of
  the mean number of minutes early, before the success rate is looked at.
\<close>

definition suggestion_by_mean :: "rat \<Rightarrow> rat" where
  "suggestion_by_mean mean_early =
     (if 10 < mean_early then - 2 * MARGIN_ADJUST_STEP
      else if 5 < mean_early \<and> mean_early \<le> 10 then - 1 * MARGIN_ADJUST_STEP
      else if mean_early < 0 then 2 * MARGIN_ADJUST_STEP
      else if 0 \<le> mean_early \<and> mean_early < 2 then 1 * MARGIN_ADJUST_STEP
      else 0)"

text \<open>
  The specification's words "the current setpoint is at or near eco", with the tolerance
  of 0.3 degrees that the schedule strategies use for every comparison of setpoints.
\<close>

definition at_or_near :: "rat \<Rightarrow> rat \<Rightarrow> bool" where
  "at_or_near current eco = (\<bar>current - eco\<bar> \<le> 3 / 10)"

text \<open>
  The number an entity exposes under an attribute name \<open>k\<close> or its alias \<open>k'\<close>: what
  the lookup \<open>attrs.get(k) or attrs.get(k')\<close> finds, read as a number.
\<close>

definition exposed_value :: "(string \<Rightarrow> rat option) \<Rightarrow> ha_state \<Rightarrow> string \<Rightarrow> string \<Rightarrow> rat option" where
  "exposed_value pf st k k' = py_float pf (py_or (attrs_get st k) (attrs_get st k'))"

definition vtherm_transition :: "rat \<Rightarrow> rat \<Rightarrow> NextTransition" where
  "vtherm_transition comfort current =
     \<lparr> nt_target_time = None, nt_target_temp = comfort, current_temp_schedule = current,
       source = ''vtherm_preset'' \<rparr>"

definition fallback_transition :: "rat \<Rightarrow> NextTransition" where
  "fallback_transition current =
     \<lparr> nt_target_time = None, nt_target_temp = current, current_temp_schedule = current,
       source = ''current_only'' \<rparr>"

text \<open>
  A schedule entity with two presets and no event list, whose state text is read by
  \<open>preset_pf\<close>; and an engine for the zone it schedules.
\<close>

definition preset_entity :: "string \<Rightarrow> rat \<Rightarrow> rat \<Rightarrow> ha_state" where
  "preset_entity txt comfort eco =
     \<lparr> st_state = txt,
       st_attributes = [''comfort_temp'' \<mapsto> PNum comfort, ''eco_temp'' \<mapsto> PNum eco] \<rparr>"

definition preset_pf :: "string \<Rightarrow> rat option" where
  "preset_pf txt =
     (if txt = ''10'' then Some 10 else if txt = ''17'' then Some 17
      else if txt = ''0'' then Some 0
      else if txt = ''8.3'' then Some (fl (83 / 10))
      else if txt = ''5.4'' then Some (fl (54 / 10)) else None)"

definition preset_hass :: "ha_state \<Rightarrow> bool \<Rightarrow> HomeAssistant" where
  "preset_hass st ok = \<lparr> states = [''sensor.schedule'' \<mapsto> st], set_temperature_ok = ok \<rparr>"

definition no_events :: "pyval \<Rightarrow> datetime \<Rightarrow> rat \<Rightarrow> NextTransition option" where
  "no_events events now current = None"

definition salon_engine :: AnticipationEngine where
  "salon_engine =
     AnticipationEngine_init ''salon'' ''climate.salon'' (Some ''sensor.schedule'') True 1800"


text \<open>
  A model at capacity, read back from storage, and a feedback loop at capacity with one
  observation pending.
\<close>

definition scenario_dict :: session_dict where
  "scenario_dict =
     \<lparr> d_date = Some ''2024-01-15 06:30'', d_temp_start = Some 18, d_temp_end = Some 20,
       d_temp_ext_avg = Some 5, d_delta_temp = Some 2, d_duration_min = Some 32,
       d_speed_degc_per_min = Some (1 / 16), d_anticipated = None \<rparr>"

definition full_model :: ThermalModel where
  "full_model = load_sessions (ThermalModel_init 0) (replicate 100 scenario_dict)"

definition late_result :: AnticipationResult where
  "late_result =
     \<lparr> res_date = 4200, res_target_temp = 20, actual_temp_at_target_time = 19,
       res_temp_at_start = 18, res_target_time = 3600, actual_arrival_time = None,
       minutes_early = - 10, margin_used = 5 / 4, llm_adjustment = 0, ext_temp_avg = 5,
       success = Some False \<rparr>"

definition full_loop :: FeedbackLoop where
  "full_loop =
     start_tracking \<lparr> fb_zone_name = ''salon'', history = replicate 30 late_result, pending = None \<rparr>
       1800 20 3600 18 (5 / 4) 0 5"

text \<open>A feedback loop whose results are all successes, given their minutes early.\<close>

definition early_result :: "rat \<Rightarrow> AnticipationResult" where
  "early_result e =
     \<lparr> res_date = 3000, res_target_temp = 20, actual_temp_at_target_time = 20,
       res_temp_at_start = 18, res_target_time = 3600, actual_arrival_time = Some 3000,
       minutes_early = e, margin_used = 5 / 4, llm_adjustment = 0, ext_temp_avg = 5,
       success = Some True \<rparr>"

definition early_loop :: "rat list \<Rightarrow> FeedbackLoop" where
  "early_loop es = \<lparr> fb_zone_name = ''salon'', history = map early_result es, pending = None \<rparr>"


text \<open>
  The preset attributes of a schedule entity as the specification sees them. The
  setpoint exposed under a name \<open>k\<close> with alias \<open>k'\<close> is the attribute \<open>k\<close> when the
  entity has one (other than \<open>None\<close>), else the attribute \<open>k'\<close>, read as a number.
  An attribute is plain when it is missing, \<open>None\<close>, or a value Python counts as true:
  not zero and not empty.
\<close>

definition preset_attr_plain :: "ha_state \<Rightarrow> string \<Rightarrow> bool" where
  "preset_attr_plain st k = (attrs_get st k = PNone \<or> truthy (attrs_get st k))"

definition preset_value :: "(string \<Rightarrow> rat option) \<Rightarrow> ha_state \<Rightarrow> string \<Rightarrow> string \<Rightarrow> rat option" where
  "preset_value pf st k k' =
     (if attrs_get st k \<noteq> PNone then py_float pf (attrs_get st k)
      else py_float pf (attrs_get st k'))"

section \<open>Rounding\<close>

text \<open>
  The rounding \<open>fl\<close> keeps the sign, is monotone, and leaves every integer of at most
  53 bits as it is.
\<close>

lemma py_round_mono: "x \<le> y \<Longrightarrow> py_round x \<le> py_round y"
proof -
  assume xy: "x \<le> y"
  have fl: "\<lfloor>x\<rfloor> \<le> \<lfloor>y\<rfloor>" using xy by (rule floor_mono)
  have lo: "\<And>z. \<lfloor>z\<rfloor> \<le> py_round z" by (simp add: py_round_def Let_def)
  have hi: "\<And>z. py_round z \<le> \<lfloor>z\<rfloor> + 1" by (simp add: py_round_def Let_def)
  show ?thesis
  proof (cases "\<lfloor>x\<rfloor> = \<lfloor>y\<rfloor>")
    case True
    then show ?thesis using xy by (auto simp: py_round_def Let_def)
  next
    case False
    then have "\<lfloor>x\<rfloor> + 1 \<le> \<lfloor>y\<rfloor>" using fl by simp
    then show ?thesis using lo[of y] hi[of x] by linarith
  qed
qed

lemma py_round_of_int: "py_round (of_int k) = k"
  by (simp add: py_round_def Let_def)

lemma bitlen_pos_bounds:
  assumes "0 < p"
  shows "2 powi (bitlen p - 1) \<le> (of_int p :: rat)" and "(of_int p :: rat) < 2 powi bitlen p"
proof -
  have b1: "1 \<le> bitlen p" using assms bitlen_eq_zero_iff [of p] bitlen_nonneg [of p] by linarith
  from bitlen_bounds [OF assms]
  have lo: "2 ^ nat (bitlen p - 1) \<le> p" and hi: "p < 2 ^ nat (bitlen p)" by simp_all
  have "(of_int (2 ^ nat (bitlen p - 1)) :: rat) \<le> of_int p" using lo by (simp only: of_int_le_iff)
  then show "2 powi (bitlen p - 1) \<le> (of_int p :: rat)"
    using b1 by (simp add: power_int_nonneg_exp)
  have "(of_int p :: rat) < of_int (2 ^ nat (bitlen p))" using hi by (simp only: of_int_less_iff)
  then show "(of_int p :: rat) < 2 powi bitlen p"
    using b1 by (simp add: power_int_nonneg_exp)
qed

lemma ulp_exp_bounds:
  assumes "0 < x"
  shows "2 powi (ulp_exp x + 52) \<le> x" and "x < 2 powi (ulp_exp x + 53)"
proof -
  obtain p q where pq: "quotient_of x = (p, q)" by (cases "quotient_of x")
  have q: "0 < q" using pq by (rule quotient_of_denom_pos)
  have x: "x = of_int p / of_int q" using pq by (rule quotient_of_div)
  have p: "0 < p" using assms q x by (simp add: zero_less_divide_iff)
  let ?k = "bitlen p - bitlen q"
  note bp = bitlen_pos_bounds [OF p]
  note bq = bitlen_pos_bounds [OF q]
  have qpos: "(0::rat) < of_int q" using q by simp
  have up: "x < 2 powi (?k + 1)"
  proof -
    have "x < 2 powi bitlen p / of_int q" unfolding x using bp(2) qpos by (simp add: divide_strict_right_mono)
    also have "\<dots> \<le> 2 powi bitlen p / 2 powi (bitlen q - 1)"
      using bq(1) qpos by (intro divide_left_mono) (simp_all add: zero_less_mult_iff)
    also have "\<dots> = 2 powi (bitlen p - (bitlen q - 1))" by (simp add: power_int_diff)
    finally show ?thesis by (simp add: algebra_simps)
  qed
  have lo: "2 powi (?k - 1) < x"
  proof -
    have "2 powi (?k - 1) = 2 powi (bitlen p - 1 - bitlen q)" by (simp add: algebra_simps)
    also have "\<dots> = 2 powi (bitlen p - 1) / (2 powi bitlen q :: rat)" by (simp add: power_int_diff)
    also have "\<dots> < 2 powi (bitlen p - 1) / of_int q"
      using bq(2) qpos by (intro divide_strict_left_mono) simp_all
    also have "\<dots> \<le> of_int p / of_int q" using bp(1) qpos by (simp add: divide_right_mono)
    finally show ?thesis unfolding x .
  qed
  have e: "ulp_exp x = (if 2 powi ?k \<le> x then ?k else ?k - 1) - 52"
    using assms pq by (simp add: ulp_exp_def Let_def)
  show "2 powi (ulp_exp x + 52) \<le> x" using lo unfolding e by (auto simp: less_imp_le)
  show "x < 2 powi (ulp_exp x + 53)" using up unfolding e by (auto simp: not_le algebra_simps)
qed


lemma powi2_less_imp: "(2::rat) powi a < 2 powi b \<Longrightarrow> a < b"
proof (rule ccontr)
  assume h: "(2::rat) powi a < 2 powi b" and "\<not> a < b"
  then have "b \<le> a" by simp
  then have "(2::rat) powi b \<le> 2 powi a" by (intro power_int_increasing) simp_all
  with h show False by simp
qed

lemma flp_eq: "flp x = of_int (py_round (x / 2 powi ulp_exp x)) * 2 powi ulp_exp x"
  by (simp add: flp_def Let_def)

lemma flp_bounds:
  assumes "0 < x"
  shows "2 powi (ulp_exp x + 52) \<le> flp x" and "flp x \<le> 2 powi (ulp_exp x + 53)"
proof -
  let ?u = "(2::rat) powi ulp_exp x"
  have u: "0 < ?u" by simp
  have lo: "2 powi (ulp_exp x + 52) = 2 ^ 52 * ?u" and hi: "2 powi (ulp_exp x + 53) = 2 ^ 53 * ?u"
    by (simp_all add: power_int_add)
  from ulp_exp_bounds [OF assms] have "2 ^ 52 * ?u \<le> x" and "x < 2 ^ 53 * ?u"
    unfolding lo hi by simp_all
  then have a: "of_int (2 ^ 52) \<le> x / ?u" and b: "x / ?u \<le> of_int (2 ^ 53)"
    using u by (simp_all add: pos_le_divide_eq pos_divide_le_eq)
  from py_round_mono [OF a] have "2 ^ 52 \<le> py_round (x / ?u)" by (simp only: py_round_of_int)
  then have "(of_int (2 ^ 52) :: rat) \<le> of_int (py_round (x / ?u))" by (simp only: of_int_le_iff)
  then have "2 ^ 52 * ?u \<le> of_int (py_round (x / ?u)) * ?u"
    using u by (intro mult_right_mono) simp_all
  then show "2 powi (ulp_exp x + 52) \<le> flp x" unfolding lo flp_eq .
  from py_round_mono [OF b] have "py_round (x / ?u) \<le> 2 ^ 53" by (simp only: py_round_of_int)
  then have "(of_int (py_round (x / ?u)) :: rat) \<le> of_int (2 ^ 53)" by (simp only: of_int_le_iff)
  then have "of_int (py_round (x / ?u)) * ?u \<le> 2 ^ 53 * ?u"
    using u by (intro mult_right_mono) simp_all
  then show "flp x \<le> 2 powi (ulp_exp x + 53)" unfolding hi flp_eq .
qed

lemma flp_pos: "0 < x \<Longrightarrow> 0 < flp x"
proof -
  assume x: "0 < x"
  have "(0::rat) < 2 powi (ulp_exp x + 52)" by simp
  also have "\<dots> \<le> flp x" using flp_bounds(1) [OF x] .
  finally show ?thesis .
qed

lemma flp_mono:
  assumes "0 < x" and "x \<le> y"
  shows "flp x \<le> flp y"
proof -
  have y: "0 < y" using assms by simp
  have "2 powi (ulp_exp x + 52) \<le> x" using ulp_exp_bounds(1) [OF assms(1)] .
  also have "x \<le> y" by fact
  also have "y < 2 powi (ulp_exp y + 53)" using ulp_exp_bounds(2) [OF y] .
  finally have "ulp_exp x + 52 < ulp_exp y + 53" by (rule powi2_less_imp)
  then have le: "ulp_exp x \<le> ulp_exp y" by simp
  show ?thesis
  proof (cases "ulp_exp x = ulp_exp y")
    case True
    let ?u = "(2::rat) powi ulp_exp y"
    have "x / ?u \<le> y / ?u" using assms(2) by (simp add: divide_right_mono)
    then have "py_round (x / ?u) \<le> py_round (y / ?u)" by (rule py_round_mono)
    then have "(of_int (py_round (x / ?u)) :: rat) \<le> of_int (py_round (y / ?u))"
      by (simp only: of_int_le_iff)
    then have "of_int (py_round (x / ?u)) * ?u \<le> of_int (py_round (y / ?u)) * ?u"
      by (intro mult_right_mono) simp_all
    then show ?thesis unfolding flp_eq True .
  next
    case False
    with le have "ulp_exp x + 53 \<le> ulp_exp y + 52" by simp
    then have "(2::rat) powi (ulp_exp x + 53) \<le> 2 powi (ulp_exp y + 52)"
      by (intro power_int_increasing) simp_all
    with flp_bounds(2) [OF assms(1)] flp_bounds(1) [OF y] show ?thesis by linarith
  qed
qed

lemma fl_zero: "fl 0 = 0"
  by (simp add: fl_def)

lemma fl_pos: "0 < x \<Longrightarrow> 0 < fl x"
  by (simp add: fl_def flp_pos)

lemma fl_neg: "x < 0 \<Longrightarrow> fl x < 0"
  by (simp add: fl_def flp_pos)

lemma fl_minus: "fl (- x) = - fl x"
  by (simp add: fl_def)

lemma fl_mono: "x \<le> y \<Longrightarrow> fl x \<le> fl y"
proof -
  assume xy: "x \<le> y"
  consider "0 < x" | "x \<le> 0" "0 \<le> y" | "y < 0" using xy by linarith
  then show ?thesis
  proof cases
    case 1
    then have "0 < y" using xy by simp
    with 1 xy show ?thesis by (simp add: fl_def flp_mono)
  next
    case 2
    have "fl x \<le> 0" using 2(1) fl_neg [of x] by (cases "x = 0") (simp_all add: fl_zero)
    moreover have "0 \<le> fl y" using 2(2) fl_pos [of y] by (cases "y = 0") (simp_all add: fl_zero)
    ultimately show ?thesis by simp
  next
    case 3
    then have "x < 0" using xy by simp
    have "flp (- y) \<le> flp (- x)" using 3 xy by (intro flp_mono) simp_all
    with 3 \<open>x < 0\<close> show ?thesis by (simp add: fl_def)
  qed
qed

lemma fl_le_zero_iff: "fl x \<le> 0 \<longleftrightarrow> x \<le> 0"
proof
  assume "fl x \<le> 0"
  then show "x \<le> 0" using fl_pos [of x] by (cases "0 < x") simp_all
next
  assume "x \<le> 0"
  then show "fl x \<le> 0" using fl_neg [of x] by (cases "x = 0") (simp_all add: fl_zero)
qed

lemma fl_nonneg: "0 \<le> x \<Longrightarrow> 0 \<le> fl x"
  using fl_mono [of 0 x] by (simp add: fl_zero)

lemma flp_of_int:
  assumes "0 < n" and "n \<le> 2 ^ 53"
  shows "flp (of_int n) = of_int n"
proof -
  let ?x = "of_int n :: rat"
  let ?E = "ulp_exp ?x + 52"
  have x: "0 < ?x" using assms by simp
  note b = ulp_exp_bounds [OF x]
  have "(2::rat) powi ?E \<le> of_int (2 ^ 53)" using b(1) assms(2)
    by (metis (no_types) of_int_le_iff order_trans)
  then have up: "(2::rat) powi ?E < 2 powi 54" by (simp add: power_int_nonneg_exp)
  have "(2::rat) powi 0 \<le> ?x" using assms(1) by simp
  also have "?x < 2 powi (ulp_exp ?x + 53)" by (rule b(2))
  finally have "0 < ulp_exp ?x + 53" by (rule powi2_less_imp)
  then have E0: "0 \<le> ?E" by simp
  from up have E53: "?E \<le> 53" using powi2_less_imp [of ?E 54] by simp
  show ?thesis
  proof (cases "?E = 53")
    case True
    then have e1: "ulp_exp ?x = 1" by simp
    from b(1) True have "(2::rat) ^ 53 \<le> ?x" by (simp add: power_int_nonneg_exp)
    then have "(of_int (2 ^ 53) :: rat) \<le> of_int n" by simp
    then have "2 ^ 53 \<le> n" by (simp only: of_int_le_iff)
    with assms(2) have n: "n = 2 ^ 53" by simp
    have "?x / 2 powi 1 = of_int (2 ^ 52)" unfolding n by simp
    then show ?thesis unfolding flp_eq e1 by (simp only: py_round_of_int) (simp add: n)
  next
    case False
    with E53 have le: "ulp_exp ?x \<le> 0" by simp
    let ?m = "nat (- ulp_exp ?x)"
    have u: "(2::rat) powi ulp_exp ?x = 1 / 2 ^ ?m"
      using le by (simp add: power_int_def field_simps)
    have "?x / 2 powi ulp_exp ?x = of_int (n * 2 ^ ?m)" unfolding u by simp
    then show ?thesis unfolding flp_eq by (simp only: py_round_of_int) (simp add: u)
  qed
qed

lemma fl_of_int: "\<bar>n\<bar> \<le> 2 ^ 53 \<Longrightarrow> fl (of_int n) = of_int n"
proof -
  assume h: "\<bar>n\<bar> \<le> 2 ^ 53"
  consider "n = 0" | "0 < n" | "n < 0" by linarith
  then show ?thesis
  proof cases
    case 1
    then show ?thesis by (simp add: fl_zero)
  next
    case 2
    with h flp_of_int [of n] show ?thesis by (simp add: fl_def)
  next
    case 3
    with h flp_of_int [of "- n"] show ?thesis by (simp add: fl_def)
  qed
qed

lemma round_nd_0: "round_nd x 0 = of_int (py_round x)"
  by (simp add: round_nd_def)

lemma py_round_nonneg: "0 \<le> x \<Longrightarrow> 0 \<le> py_round x"
  using py_round_mono [of 0 x] py_round_of_int [of 0] by simp

lemma round_float_0: "round_float x 0 = fl (of_int (py_round x))"
  by (simp add: round_float_def round_nd_0)

lemma round_float_0_mono: "x \<le> y \<Longrightarrow> round_float x 0 \<le> round_float y 0"
  unfolding round_float_0 by (intro fl_mono) (simp add: py_round_mono)

lemma round_float_0_nonneg: "0 \<le> x \<Longrightarrow> 0 \<le> round_float x 0"
  unfolding round_float_0 by (intro fl_nonneg) (simp add: py_round_nonneg)

lemma round_float_0_int:
  "\<bar>py_round x\<bar> \<le> 2 ^ 53 \<Longrightarrow> round_float x 0 = of_int (py_round x)"
  unfolding round_float_0 by (rule fl_of_int)

section \<open>Bounded histories\<close>

lemma last_n_length: "length (last_n n xs) = min n (length xs)"
  by (simp add: last_n_def)

lemma last_n_full: "length xs = n \<Longrightarrow> 0 < n \<Longrightarrow> last_n n (xs @ [x]) = tl xs @ [x]"
  by (cases xs) (simp_all add: last_n_def)

lemma sessions_recalculate: "sessions (recalculate m) = sessions m"
  by (simp add: recalculate_def Let_def)

lemma sessions_add_session:
  "sessions (add_session m s) =
     (if 100 \<le> length (sessions m) then last_n 100 (sessions m @ [s]) else sessions m @ [s])"
  by (simp add: add_session_def Let_def sessions_recalculate)

lemma history_record_result:
  "pending fb = Some p \<Longrightarrow>
     \<exists>r. fst (record_result fb now c reached) = Some r \<and>
       history (snd (record_result fb now c reached)) =
         (if MAX_HISTORY \<le> length (history fb) then last_n MAX_HISTORY (history fb @ [r])
          else history fb @ [r])"
  by (simp add: record_result_def Let_def)

text \<open>
  Claim C4. A thermal model holding 100 sessions still holds 100 after \<open>add_session\<close>,
  and what it lost is the session at index 0; a feedback loop holding 30 results still
  holds 30 after a \<open>record_result\<close> that closes a pending observation, and lost its
  oldest result. Whatever the length before, adding one element leaves at most 100
  sessions and at most 30 results.
\<close>

theorem bounded_histories_drop_oldest:
  "(length (sessions m) = 100 \<longrightarrow>
      sessions (add_session m s) = tl (sessions m) @ [s] \<and>
      length (sessions (add_session m s)) = 100) \<and>
   (length (history fb) = 30 \<and> pending fb \<noteq> None \<longrightarrow>
      (\<exists>r. fst (record_result fb now c reached) = Some r \<and>
           history (snd (record_result fb now c reached)) = tl (history fb) @ [r]) \<and>
      length (history (snd (record_result fb now c reached))) = 30) \<and>
   length (sessions (add_session m s)) \<le> 100 \<and>
   (pending fb \<noteq> None \<longrightarrow> length (history (snd (record_result fb now c reached))) \<le> 30)"
proof (intro conjI impI)
  assume h: "length (sessions m) = 100"
  then show "sessions (add_session m s) = tl (sessions m) @ [s]"
    by (simp add: sessions_add_session last_n_full)
  from h show "length (sessions (add_session m s)) = 100"
    by (simp add: sessions_add_session last_n_length)
next
  show "length (sessions (add_session m s)) \<le> 100"
    by (simp add: sessions_add_session last_n_length)
next
  assume h: "length (history fb) = 30 \<and> pending fb \<noteq> None"
  then obtain p where p: "pending fb = Some p" by auto
  from history_record_result [OF p, of now c reached] obtain r where
    r: "fst (record_result fb now c reached) = Some r"
       "history (snd (record_result fb now c reached)) =
         (if MAX_HISTORY \<le> length (history fb) then last_n MAX_HISTORY (history fb @ [r])
          else history fb @ [r])" by blast
  from h r show "\<exists>r. fst (record_result fb now c reached) = Some r \<and>
           history (snd (record_result fb now c reached)) = tl (history fb) @ [r]"
    by (simp add: MAX_HISTORY_def last_n_full)
  from h r show "length (history (snd (record_result fb now c reached))) = 30"
    by (simp add: MAX_HISTORY_def last_n_length)
next
  assume "pending fb \<noteq> None"
  then obtain p where p: "pending fb = Some p" by auto
  from history_record_result [OF p, of now c reached] obtain r where
    r: "history (snd (record_result fb now c reached)) =
         (if MAX_HISTORY \<le> length (history fb) then last_n MAX_HISTORY (history fb @ [r])
          else history fb @ [r])" by blast
  then show "length (history (snd (record_result fb now c reached))) \<le> 30"
    by (simp add: MAX_HISTORY_def last_n_length)
qed

lemma full_model_sessions: "sessions full_model = replicate 100 (from_dict scenario_dict)"
  by (simp add: full_model_def load_sessions_def sessions_recalculate)

lemma full_loop_fields:
  "history full_loop = replicate 30 late_result" "pending full_loop \<noteq> None"
  by (simp_all add: full_loop_def start_tracking_def)

theorem bounded_histories_drop_oldest_witness:
  "length (sessions full_model) = 100 \<and>
   length (history full_loop) = 30 \<and> pending full_loop \<noteq> None \<and>
   sessions (add_session full_model (scenario_session (fl (6 / 100)))) =
     tl (sessions full_model) @ [scenario_session (fl (6 / 100))] \<and>
   length (history (snd (record_result full_loop 3300 20 True))) = 30"
  using bounded_histories_drop_oldest
          [of full_model "scenario_session (fl (6 / 100))" full_loop 3300 20 True]
  by (simp add: full_model_sessions full_loop_fields)

text \<open>
  Claim C10. \<open>load_sessions\<close> stores the decoded list as it is: a persisted list of more
  than 100 sessions leaves a history longer than 100, and the next \<open>add_session\<close> brings
  it back to 100.
\<close>

theorem load_sessions_keeps_every_session:
  "100 < length data \<Longrightarrow>
     sessions (load_sessions m data) = map from_dict data \<and>
     100 < length (sessions (load_sessions m data)) \<and>
     length (sessions (add_session (load_sessions m data) s)) = 100"
  by (simp add: load_sessions_def sessions_recalculate sessions_add_session last_n_length)

theorem load_sessions_keeps_every_session_witness:
  "100 < length (replicate 101 scenario_dict) \<and>
   length (sessions (load_sessions (ThermalModel_init 0) (replicate 101 scenario_dict))) = 101 \<and>
   length (sessions (add_session (load_sessions (ThermalModel_init 0) (replicate 101 scenario_dict))
                      (scenario_session (fl (6 / 100))))) = 100"
  using load_sessions_keeps_every_session
          [of "replicate 101 scenario_dict" "ThermalModel_init 0" "scenario_session (fl (6 / 100))"]
  by simp

section \<open>Time to target\<close>

lemma estimate_with_speed:
  assumes "get_speed_for_ext_temp m ext_temp = Some speed" and "0 < speed"
  shows "estimate_time_to_target m current_temp target_temp ext_temp margin =
           Some (if fsub target_temp current_temp \<le> 0 then 0
                 else round_float (fmul (fdiv (fsub target_temp current_temp) speed) margin) 0)"
  using assms by (simp add: estimate_time_to_target_def Let_def)

lemma fsub_le_zero_iff: "fsub a b \<le> 0 \<longleftrightarrow> a \<le> b"
  by (simp add: fsub_def fl_le_zero_iff)

text \<open>
  The selected speed: the median of the positive speeds of the sessions within 5 degrees
  of the bucket, or else the fallback speed.
\<close>

lemma get_speed_for_ext_temp_cases:
  "get_speed_for_ext_temp m ext_temp =
     (if sessions m = [] then None
      else
        let bucket = py_round (fdiv ext_temp 5) * 5;
            speeds = map speed_degc_per_min
                       (filter (\<lambda>s. \<bar>fsub (temp_ext_avg s) (of_int bucket)\<bar> \<le> 5
                                    \<and> 0 < speed_degc_per_min s)
                          (sessions m))
        in if speeds \<noteq> [] then Some (median speeds) else avg_speed m)"
proof -
  let ?near = "\<lambda>s. \<bar>fsub (temp_ext_avg s) (of_int (py_round (fdiv ext_temp 5) * 5))\<bar> \<le> 5"
  let ?pos = "\<lambda>s. 0 < speed_degc_per_min s"
  have ff: "filter ?pos (filter ?near (sessions m)) = filter (\<lambda>s. ?near s \<and> ?pos s) (sessions m)"
    by simp
  have ne: "filter (\<lambda>s. ?near s \<and> ?pos s) (sessions m) \<noteq> [] \<Longrightarrow> filter ?near (sessions m) \<noteq> []"
    by (auto simp: filter_empty_conv)
  show ?thesis
  proof (cases "filter (\<lambda>s. ?near s \<and> ?pos s) (sessions m) = []")
    case True
    then show ?thesis
      unfolding get_speed_for_ext_temp_def Let_def ff by (simp only: map_is_Nil_conv simp_thms if_False)
  next
    case False
    with ne have "filter ?near (sessions m) \<noteq> []" by blast
    with False show ?thesis
      unfolding get_speed_for_ext_temp_def Let_def ff by (simp only: map_is_Nil_conv simp_thms if_True)
  qed
qed

text \<open>
  The fallback speed is the mean over the valid sessions (positive speed, at least five
  minutes), rounded to five places, as of the last recalculation.
\<close>

lemma avg_speed_recalculate:
  "avg_speed (recalculate m) =
     (let valid = filter (\<lambda>s. 0 < speed_degc_per_min s \<and> 5 \<le> duration_min s) (sessions m)
      in if valid = [] then None else Some (round_float (mean (map speed_degc_per_min valid)) 5))"
  by (auto simp: avg_speed_def recalculate_def Let_def)

text \<open>The floats of the scenario, and small integers as floats.\<close>

lemma scenario_floats:
  "fl (5 / 100) = 3602879701896397 / 72057594037927936"
  "fl (6 / 100) = 1080863910568919 / 18014398509481984"
  "fl (55 / 1000) = 7926335344172073 / 144115188075855872"
  by code_simp+

lemma fl_small: "fl 0 = 0" "fl 1 = 1" "fl 2 = 2"
  using fl_of_int [of 0] fl_of_int [of 1] fl_of_int [of 2] by simp_all

lemma py_round_1: "py_round 1 = 1"
  using py_round_of_int [of 1] by simp

lemma scenario_sessions:
  "sessions scenario_model =
     [scenario_session (fl (5 / 100)), scenario_session (fl (6 / 100)),
      scenario_session (fl (55 / 1000))]"
  by (simp add: scenario_model_def sessions_add_session ThermalModel_init_def)

lemma scenario_median:
  "median [fl (5 / 100), fl (6 / 100), fl (55 / 1000)] = fl (55 / 1000)"
  unfolding scenario_floats by (simp add: median_def)

lemma scenario_speed: "get_speed_for_ext_temp scenario_model 5 = Some (fl (55 / 1000))"
proof -
  have b: "py_round (fdiv 5 5) * 5 = 5" by (simp add: fdiv_def fl_small py_round_1)
  have n: "\<bar>fsub 5 (of_int 5)\<bar> \<le> 5" by (simp add: fsub_def fl_small)
  have p: "0 < fl (5 / 100)" "0 < fl (6 / 100)" "0 < fl (55 / 1000)" by (simp_all add: fl_pos)
  show ?thesis
    unfolding get_speed_for_ext_temp_cases scenario_sessions Let_def b
    using n p by (simp add: scenario_session_def scenario_median [simplified])
qed

lemma scenario_speed_pos: "0 < fl (55 / 1000)"
  by (simp add: fl_pos)

text \<open>
  Claim C6. Whatever the model holds, and for every outdoor temperature and margin, the
  estimate is 0 when the target is not above the current temperature.
\<close>

theorem estimate_zero_when_no_heating_needed:
  "target_temp \<le> current_temp \<Longrightarrow>
     estimate_time_to_target m current_temp target_temp ext_temp margin = Some 0"
  by (simp add: estimate_time_to_target_def fsub_le_zero_iff)

theorem estimate_zero_when_no_heating_needed_witness:
  "(18::rat) \<le> 20 \<and> estimate_time_to_target (ThermalModel_init 0) 20 18 (- 3) (115 / 100) = Some 0"
  using estimate_zero_when_no_heating_needed [of 18 20 "ThermalModel_init 0" "- 3" "115 / 100"]
  by simp

text \<open>
  Claim C1 as stated fails: the source rounds to the nearest minute, it does not round
  up. With the scenario's sessions the selected speed is the float 0.055; for a margin
  of 1 the float product is 36.36..., the estimate is 36 and the ceiling is 37.
\<close>

lemma scenario_estimate:
  "estimate_time_to_target scenario_model 18 20 5 margin =
     Some (round_float (fmul (fdiv 2 (fl (55 / 1000))) margin) 0)"
  using estimate_with_speed [OF scenario_speed scenario_speed_pos, of 18 20 margin]
  by (simp add: fsub_def fl_small)

lemma scenario_numbers:
  "round_float (fmul (fdiv 2 (fl (55 / 1000))) (fl (115 / 100))) 0 = 42"
  "round_float (fmul (fdiv 2 (fl (55 / 1000))) 1) 0 = 36"
  "\<lceil>fmul (fdiv 2 (fl (55 / 1000))) 1\<rceil> = 37"
  "\<lceil>2 / fl (55 / 1000) * 1\<rceil> = 37"
  "py_round (fmul (fdiv 2 (fl (55 / 1000))) 1) = 36"
  by code_simp+

theorem estimate_ceiling_counterexample:
  "get_speed_for_ext_temp scenario_model 5 = Some (fl (55 / 1000)) \<and>
   estimate_time_to_target scenario_model 18 20 5 1 = Some 36 \<and>
   \<lceil>fmul (fdiv (fsub 20 18) (fl (55 / 1000))) 1\<rceil> = 37 \<and>
   \<lceil>(20 - 18) / fl (55 / 1000) * 1\<rceil> = 37 \<and>
   estimate_time_to_target scenario_model 18 20 5 1
     \<noteq> Some (of_int \<lceil>fmul (fdiv (fsub 20 18) (fl (55 / 1000))) 1\<rceil>)"
proof -
  have d: "fsub 20 18 = 2" by (simp add: fsub_def fl_small)
  have e: "(20 - 18 :: rat) = 2" by simp
  show ?thesis
    unfolding d e scenario_estimate scenario_numbers using scenario_speed by simp
qed

text \<open>
  Claim C1, amended. When a positive speed is selected and the target is above the
  current temperature, the estimate is the float product
  \<open>(target - current) / speed * margin\<close>, each operation rounded as the source rounds
  it, rounded to the nearest whole number of minutes, a tie going to the even one (and
  that whole number is the result itself as long as it has at most 53 bits); in the
  scenario of the specification the estimate is 42.
\<close>

theorem estimate_rounds_to_nearest:
  "(get_speed_for_ext_temp m ext_temp = Some speed \<and> 0 < speed \<and> current_temp < target_temp \<longrightarrow>
      (let y = fmul (fdiv (fsub target_temp current_temp) speed) margin
       in estimate_time_to_target m current_temp target_temp ext_temp margin
            = Some (fl (of_int (py_round y))) \<and>
          (\<bar>py_round y\<bar> \<le> 2 ^ 53 \<longrightarrow>
             estimate_time_to_target m current_temp target_temp ext_temp margin
               = Some (of_int (py_round y))))) \<and>
   estimate_time_to_target scenario_model 18 20 5 (fl (115 / 100)) = Some 42"
proof (intro conjI impI)
  assume h: "get_speed_for_ext_temp m ext_temp = Some speed \<and> 0 < speed \<and> current_temp < target_temp"
  then have e: "estimate_time_to_target m current_temp target_temp ext_temp margin =
      Some (round_float (fmul (fdiv (fsub target_temp current_temp) speed) margin) 0)"
    using estimate_with_speed [of m ext_temp speed current_temp target_temp margin]
    by (simp add: fsub_le_zero_iff)
  show "let y = fmul (fdiv (fsub target_temp current_temp) speed) margin
        in estimate_time_to_target m current_temp target_temp ext_temp margin
             = Some (fl (of_int (py_round y))) \<and>
           (\<bar>py_round y\<bar> \<le> 2 ^ 53 \<longrightarrow>
              estimate_time_to_target m current_temp target_temp ext_temp margin
                = Some (of_int (py_round y)))"
    unfolding Let_def e using round_float_0_int by (simp add: round_float_0)
next
  show "estimate_time_to_target scenario_model 18 20 5 (fl (115 / 100)) = Some 42"
    unfolding scenario_estimate scenario_numbers by simp
qed

lemma scenario_product: "py_round (fmul (fdiv (fsub 20 18) (fl (55 / 1000))) 1) = 36"
  by (simp add: fsub_def fl_small scenario_numbers [simplified])

theorem estimate_rounds_to_nearest_witness:
  "get_speed_for_ext_temp scenario_model 5 = Some (fl (55 / 1000)) \<and> 0 < fl (55 / 1000) \<and>
   (18::rat) < 20 \<and>
   \<bar>py_round (fmul (fdiv (fsub 20 18) (fl (55 / 1000))) 1)\<bar> \<le> 2 ^ 53 \<and>
   estimate_time_to_target scenario_model 18 20 5 1 = Some 36"
  using estimate_rounds_to_nearest [of scenario_model 5 "fl (55 / 1000)" 18 20 1]
    scenario_speed scenario_speed_pos
  by (simp add: Let_def scenario_product [simplified] fl_of_int [of 36, simplified])

text \<open>
  Claim C7. With a positive selected speed: for a fixed margin that is not negative (the
  margin is a safety multiplier, and the one caller passes at least 0.81), the estimate
  does not decrease when \<open>target - current\<close> grows; and for a fixed
  \<open>target - current\<close>, the estimate does not decrease when the margin grows.
\<close>

theorem estimate_monotone:
  assumes "get_speed_for_ext_temp m ext_temp = Some speed" and "0 < speed"
  shows "(0 \<le> margin \<and> t1 - c1 \<le> t2 - c2 \<longrightarrow>
            (\<exists>r1 r2. estimate_time_to_target m c1 t1 ext_temp margin = Some r1 \<and>
                     estimate_time_to_target m c2 t2 ext_temp margin = Some r2 \<and> r1 \<le> r2)) \<and>
         (margin1 \<le> margin2 \<longrightarrow>
            (\<exists>r1 r2. estimate_time_to_target m c t ext_temp margin1 = Some r1 \<and>
                     estimate_time_to_target m c t ext_temp margin2 = Some r2 \<and> r1 \<le> r2))"
proof (intro conjI impI)
  assume h: "0 \<le> margin \<and> t1 - c1 \<le> t2 - c2"
  let ?f = "\<lambda>d. if d \<le> 0 then 0 else round_float (fmul (fdiv d speed) margin) 0"
  have d: "fsub t1 c1 \<le> fsub t2 c2" using h unfolding fsub_def by (intro fl_mono) simp
  have mono: "?f (fsub t1 c1) \<le> ?f (fsub t2 c2)"
  proof (cases "fsub t2 c2 \<le> 0")
    case True
    then show ?thesis using d by simp
  next
    case pos2: False
    then have "0 \<le> fsub t2 c2 / speed" using assms(2) by simp
    then have q2: "0 \<le> fdiv (fsub t2 c2) speed" unfolding fdiv_def by (rule fl_nonneg)
    show ?thesis
    proof (cases "fsub t1 c1 \<le> 0")
      case True
      have "0 \<le> fdiv (fsub t2 c2) speed * margin" using q2 h by simp
      then have "0 \<le> fmul (fdiv (fsub t2 c2) speed) margin" unfolding fmul_def by (rule fl_nonneg)
      then have "0 \<le> round_float (fmul (fdiv (fsub t2 c2) speed) margin) 0"
        by (rule round_float_0_nonneg)
      then show ?thesis using True pos2 by simp
    next
      case False
      have "fsub t1 c1 / speed \<le> fsub t2 c2 / speed"
        using d assms(2) by (simp add: divide_right_mono)
      then have "fdiv (fsub t1 c1) speed \<le> fdiv (fsub t2 c2) speed"
        unfolding fdiv_def by (rule fl_mono)
      then have "fdiv (fsub t1 c1) speed * margin \<le> fdiv (fsub t2 c2) speed * margin"
        using h by (intro mult_right_mono) simp_all
      then have "fmul (fdiv (fsub t1 c1) speed) margin \<le> fmul (fdiv (fsub t2 c2) speed) margin"
        unfolding fmul_def by (rule fl_mono)
      then have "round_float (fmul (fdiv (fsub t1 c1) speed) margin) 0
                   \<le> round_float (fmul (fdiv (fsub t2 c2) speed) margin) 0"
        by (rule round_float_0_mono)
      then show ?thesis using False pos2 by simp
    qed
  qed
  show "\<exists>r1 r2. estimate_time_to_target m c1 t1 ext_temp margin = Some r1 \<and>
                estimate_time_to_target m c2 t2 ext_temp margin = Some r2 \<and> r1 \<le> r2"
    using mono estimate_with_speed [OF assms, of c1 t1 margin]
      estimate_with_speed [OF assms, of c2 t2 margin] by simp
next
  assume h: "margin1 \<le> margin2"
  let ?f = "\<lambda>mg. if fsub t c \<le> 0 then 0 else round_float (fmul (fdiv (fsub t c) speed) mg) 0"
  have mono: "?f margin1 \<le> ?f margin2"
  proof (cases "fsub t c \<le> 0")
    case True
    then show ?thesis by simp
  next
    case False
    then have "0 \<le> fsub t c / speed" using assms(2) by simp
    then have "0 \<le> fdiv (fsub t c) speed" unfolding fdiv_def by (rule fl_nonneg)
    then have "fdiv (fsub t c) speed * margin1 \<le> fdiv (fsub t c) speed * margin2"
      using h by (rule mult_left_mono [rotated])
    then have "fmul (fdiv (fsub t c) speed) margin1 \<le> fmul (fdiv (fsub t c) speed) margin2"
      unfolding fmul_def by (rule fl_mono)
    then have "round_float (fmul (fdiv (fsub t c) speed) margin1) 0
                 \<le> round_float (fmul (fdiv (fsub t c) speed) margin2) 0"
      by (rule round_float_0_mono)
    then show ?thesis using False by simp
  qed
  show "\<exists>r1 r2. estimate_time_to_target m c t ext_temp margin1 = Some r1 \<and>
                estimate_time_to_target m c t ext_temp margin2 = Some r2 \<and> r1 \<le> r2"
    using mono estimate_with_speed [OF assms, of c t margin1]
      estimate_with_speed [OF assms, of c t margin2] by simp
qed

theorem estimate_monotone_witness:
  "get_speed_for_ext_temp scenario_model 5 = Some (fl (55 / 1000)) \<and> 0 < fl (55 / 1000) \<and>
   0 \<le> fl (115 / 100) \<and> (19::rat) - 18 \<le> 20 - 18 \<and>
   (\<exists>r1 r2. estimate_time_to_target scenario_model 18 19 5 (fl (115 / 100)) = Some r1 \<and>
            estimate_time_to_target scenario_model 18 20 5 (fl (115 / 100)) = Some r2 \<and> r1 \<le> r2) \<and>
   1 \<le> fl (115 / 100) \<and>
   (\<exists>r1 r2. estimate_time_to_target scenario_model 18 20 5 1 = Some r1 \<and>
            estimate_time_to_target scenario_model 18 20 5 (fl (115 / 100)) = Some r2 \<and> r1 \<le> r2)"
proof -
  have m0: "0 \<le> fl (115 / 100)" by (simp add: fl_nonneg)
  have m1: "1 \<le> fl (115 / 100)" using fl_mono [of 1 "115 / 100"] fl_of_int [of 1] by simp
  from estimate_monotone
          [where m = scenario_model and ext_temp = 5 and speed = "fl (55 / 1000)"
             and margin = "fl (115 / 100)" and ?t1.0 = 19 and ?c1.0 = 18 and ?t2.0 = 20
             and ?c2.0 = 18 and ?margin1.0 = 1 and ?margin2.0 = "fl (115 / 100)"
             and c = 18 and t = 20, OF scenario_speed scenario_speed_pos]
  show ?thesis using scenario_speed scenario_speed_pos m0 m1 by simp
qed

text \<open>
  The hypothesis on the margin cannot be dropped: with a margin of -1 a difference of
  1 degree gives -18 and a difference of 2 degrees gives -36.
\<close>

lemma negative_margin_numbers:
  "round_float (fmul (fdiv 1 (fl (55 / 1000))) (- 1)) 0 = - 18"
  "round_float (fmul (fdiv 2 (fl (55 / 1000))) (- 1)) 0 = - 36"
  by code_simp+

lemma estimate_with_negative_margin:
  "estimate_time_to_target scenario_model 18 19 5 (- 1) = Some (- 18) \<and>
   estimate_time_to_target scenario_model 18 20 5 (- 1) = Some (- 36)"
  using estimate_with_speed [OF scenario_speed scenario_speed_pos, of 18 19 "- 1"]
  by (simp add: scenario_estimate negative_margin_numbers [simplified] fsub_def fl_small)

text \<open>Two products that fall on a tie after the division has been rounded.\<close>

lemma estimate_rounded_division_examples:
  "fmul (fdiv (fsub (39 / 2) 18) (fl (1 / 100))) (5 / 4) = 375 / 2"
  "round_float (fmul (fdiv (fsub (39 / 2) 18) (fl (1 / 100))) (5 / 4)) 0 = 188"
  "round_float (fmul (fdiv (fsub 21 18) (fl (4 / 10))) 1) 0 = 8"
  by code_simp+

section \<open>Margin suggestion\<close>

text \<open>
  Doubling the step is exact, and \<open>round(.., 3)\<close> leaves each of the five values of the
  policy as it is.
\<close>

lemma step_values:
  "fmul (- MARGIN_ADJUST_STEP) 2 = - 2 * MARGIN_ADJUST_STEP"
  "fmul MARGIN_ADJUST_STEP 2 = 2 * MARGIN_ADJUST_STEP"
  "round_float (- 2 * MARGIN_ADJUST_STEP) 3 = - 2 * MARGIN_ADJUST_STEP"
  "round_float (- MARGIN_ADJUST_STEP) 3 = - MARGIN_ADJUST_STEP"
  "round_float (2 * MARGIN_ADJUST_STEP) 3 = 2 * MARGIN_ADJUST_STEP"
  "round_float MARGIN_ADJUST_STEP 3 = MARGIN_ADJUST_STEP"
  "round_float 0 3 = 0"
  "0 < MARGIN_ADJUST_STEP"
  by code_simp+

lemma step_values_neg:
  "fmul (- MARGIN_ADJUST_STEP) 2 = - (2 * MARGIN_ADJUST_STEP)"
  "round_float (- (2 * MARGIN_ADJUST_STEP)) 3 = - (2 * MARGIN_ADJUST_STEP)"
  using step_values(1,3) by simp_all

lemma suggestion_by_mean_code:
  "suggestion_by_mean a =
     (if 10 < a then fmul (- MARGIN_ADJUST_STEP) 2
      else if 5 < a then - MARGIN_ADJUST_STEP
      else if a < 0 then fmul MARGIN_ADJUST_STEP 2
      else if a < 2 then MARGIN_ADJUST_STEP
      else 0)"
  by (simp add: suggestion_by_mean_def step_values step_values_neg)

lemma suggestion_by_mean_bounds:
  "- 2 * MARGIN_ADJUST_STEP \<le> suggestion_by_mean a" "suggestion_by_mean a \<le> 2 * MARGIN_ADJUST_STEP"
  using step_values(8) by (simp_all add: suggestion_by_mean_def)

lemma suggestion_by_mean_rounded: "round_float (suggestion_by_mean a) 3 = suggestion_by_mean a"
  by (simp add: suggestion_by_mean_def step_values step_values_neg)

lemma suggestion_by_mean_cases:
  "(10 < a \<longrightarrow> suggestion_by_mean a = - 2 * MARGIN_ADJUST_STEP) \<and>
   (5 < a \<and> a \<le> 10 \<longrightarrow> suggestion_by_mean a = - 1 * MARGIN_ADJUST_STEP) \<and>
   (a < 0 \<longrightarrow> suggestion_by_mean a = 2 * MARGIN_ADJUST_STEP) \<and>
   (0 \<le> a \<and> a < 2 \<longrightarrow> suggestion_by_mean a = 1 * MARGIN_ADJUST_STEP) \<and>
   (2 \<le> a \<and> a \<le> 5 \<longrightarrow> suggestion_by_mean a = 0)"
  by (simp add: suggestion_by_mean_def)

lemma get_margin_suggestion_eq:
  "get_margin_suggestion fb =
     (let recent = filter (\<lambda>r. success r \<noteq> None) (last_n 10 (history fb));
          mean_early = mean (map minutes_early recent);
          success_rate = fdiv (of_nat (length (filter (\<lambda>r. success r = Some True) recent)))
                           (of_nat (length recent))
      in if length recent < 3 then None
         else Some (if success_rate < fl (7 / 10) then 2 * MARGIN_ADJUST_STEP
                    else suggestion_by_mean mean_early))"
proof -
  have mx: "\<And>a. max (suggestion_by_mean a) (fmul MARGIN_ADJUST_STEP 2) = 2 * MARGIN_ADJUST_STEP"
    using suggestion_by_mean_bounds(2) by (simp add: max_def step_values)
  show ?thesis
    unfolding get_margin_suggestion_def Let_def suggestion_by_mean_code [symmetric] mx
    by (simp add: suggestion_by_mean_rounded step_values)
qed

text \<open>
  On a window of at most 10 results the float test of the success rate against 0.7 is
  the exact test against 70 percent.
\<close>

lemma rate_floats: "fl (69 / 100) < fl (7 / 10)"
  by code_simp

lemma success_rate_test:
  assumes "0 < n" and "n \<le> 10" and "k \<le> n"
  shows "(fdiv (of_nat k) (of_nat n) < fl (7 / 10)) = (of_nat k / of_nat n < (7 / 10 :: rat))"
proof
  assume a: "fdiv (of_nat k) (of_nat n) < fl (7 / 10)"
  show "of_nat k / of_nat n < (7 / 10 :: rat)"
  proof (rule ccontr)
    assume "\<not> of_nat k / of_nat n < (7 / 10 :: rat)"
    then have "(7 / 10 :: rat) \<le> of_nat k / of_nat n" by simp
    then have "fl (7 / 10) \<le> fdiv (of_nat k) (of_nat n)" unfolding fdiv_def by (rule fl_mono)
    with a show False by simp
  qed
next
  assume a: "of_nat k / of_nat n < (7 / 10 :: rat)"
  have np: "(0::rat) < of_nat n" using assms(1) by simp
  from a np have "(of_nat k :: rat) * 10 < 7 * of_nat n" by (simp add: field_simps)
  then have "(of_nat (k * 10) :: rat) < of_nat (7 * n)" by simp
  then have "k * 10 < 7 * n" by (simp only: of_nat_less_iff)
  with assms(2) have "k * 100 \<le> 69 * n" by arith
  then have "(of_nat (k * 100) :: rat) \<le> of_nat (69 * n)" by (simp only: of_nat_le_iff)
  then have "(of_nat k :: rat) * 100 \<le> 69 * of_nat n" by simp
  then have "of_nat k / of_nat n \<le> (69 / 100 :: rat)" using np by (simp add: field_simps)
  then have "fdiv (of_nat k) (of_nat n) \<le> fl (69 / 100)" unfolding fdiv_def by (rule fl_mono)
  with rate_floats show "fdiv (of_nat k) (of_nat n) < fl (7 / 10)" by simp
qed

text \<open>
  Claim C3. The window is the last 10 results, of which those with a recorded outcome
  qualify. With fewer than 3 of them \<open>get_margin_suggestion\<close> returns \<open>None\<close>.
  Otherwise it returns a number between -2 and +2 steps, the step being the float 0.02:
  the specification's policy applied to the mean number of minutes early as
  \<open>statistics.mean\<close> returns it, raised to at least +2 steps when fewer than 70 percent
  of the window's results are successes.
\<close>

theorem margin_suggestion_policy:
  "let recent = filter (\<lambda>r. success r \<noteq> None) (last_n 10 (history fb));
       mean_early = mean (map minutes_early recent);
       success_rate = (of_nat (length (filter (\<lambda>r. success r = Some True) recent))
                         / of_nat (length recent) :: rat)
   in MARGIN_ADJUST_STEP = fl (2 / 100) \<and>
      (length recent < 3 \<longrightarrow> get_margin_suggestion fb = None) \<and>
      (3 \<le> length recent \<longrightarrow>
         (\<exists>v. get_margin_suggestion fb = Some v \<and>
              - 2 * MARGIN_ADJUST_STEP \<le> v \<and> v \<le> 2 * MARGIN_ADJUST_STEP \<and>
              v = (if success_rate < 7 / 10
                   then max (suggestion_by_mean mean_early) (2 * MARGIN_ADJUST_STEP)
                   else suggestion_by_mean mean_early)))"
proof -
  let ?recent = "filter (\<lambda>r. success r \<noteq> None) (last_n 10 (history fb))"
  let ?k = "length (filter (\<lambda>r. success r = Some True) ?recent)"
  have mx: "\<And>a. max (suggestion_by_mean a) (2 * MARGIN_ADJUST_STEP) = 2 * MARGIN_ADJUST_STEP"
    using suggestion_by_mean_bounds(2) by (simp add: max_def)
  have st: "- 2 * MARGIN_ADJUST_STEP \<le> 2 * MARGIN_ADJUST_STEP"
    using step_values(8) by simp
  have "length ?recent \<le> length (last_n 10 (history fb))" by (rule length_filter_le)
  then have n10: "length ?recent \<le> 10" by (simp add: last_n_length)
  have kn: "?k \<le> length ?recent" by (rule length_filter_le)
  have rest: "(length ?recent < 3 \<longrightarrow> get_margin_suggestion fb = None) \<and>
      (3 \<le> length ?recent \<longrightarrow>
         (\<exists>v. get_margin_suggestion fb = Some v \<and>
              - 2 * MARGIN_ADJUST_STEP \<le> v \<and> v \<le> 2 * MARGIN_ADJUST_STEP \<and>
              v = (if (of_nat ?k / of_nat (length ?recent) :: rat) < 7 / 10
                   then max (suggestion_by_mean (mean (map minutes_early ?recent)))
                          (2 * MARGIN_ADJUST_STEP)
                   else suggestion_by_mean (mean (map minutes_early ?recent)))))"
  proof (cases "length ?recent < 3")
    case True
    then show ?thesis
      unfolding get_margin_suggestion_eq Let_def by simp
  next
    case False
    then have "0 < length ?recent" by linarith
    note r = success_rate_test [OF this n10 kn]
    from False show ?thesis
      unfolding get_margin_suggestion_eq Let_def r
      using suggestion_by_mean_bounds st by (simp add: mx)
  qed
  show ?thesis
    unfolding Let_def using rest MARGIN_ADJUST_STEP_def by (intro conjI) blast+
qed

lemma full_loop_recent:
  "filter (\<lambda>r. success r \<noteq> None) (last_n 10 (history full_loop)) = replicate 10 late_result"
  by code_simp

lemma empty_loop_recent:
  "filter (\<lambda>r. success r \<noteq> None) (last_n 10 (history (FeedbackLoop_init ''salon''))) = []"
  by (simp add: FeedbackLoop_init_def last_n_def)

lemma late_results_rate:
  "(of_nat (length (filter (\<lambda>r. success r = Some True) (replicate 10 late_result)))
      / of_nat (length (replicate 10 late_result)) :: rat) = 0"
  by code_simp

theorem margin_suggestion_policy_witness:
  "length (filter (\<lambda>r. success r \<noteq> None) (last_n 10 (history (FeedbackLoop_init ''salon'')))) < 3 \<and>
   get_margin_suggestion (FeedbackLoop_init ''salon'') = None \<and>
   3 \<le> length (filter (\<lambda>r. success r \<noteq> None) (last_n 10 (history full_loop))) \<and>
   get_margin_suggestion full_loop = Some (2 * MARGIN_ADJUST_STEP)"
proof -
  have mx: "\<And>a. max (suggestion_by_mean a) (2 * MARGIN_ADJUST_STEP) = 2 * MARGIN_ADJUST_STEP"
    using suggestion_by_mean_bounds(2) by (simp add: max_def)
  note empty = margin_suggestion_policy [of "FeedbackLoop_init ''salon''", unfolded Let_def empty_loop_recent]
  note full = margin_suggestion_policy [of full_loop, unfolded Let_def full_loop_recent late_results_rate]
  from empty have e: "get_margin_suggestion (FeedbackLoop_init ''salon'') = None" by simp
  from full have f: "get_margin_suggestion full_loop = Some (2 * MARGIN_ADJUST_STEP)"
    by (simp add: mx)
  show ?thesis unfolding empty_loop_recent full_loop_recent using e f by simp
qed

text \<open>
  The policy on windows of successes: too early, on time, too few; and a window of the
  floats 0.1, 0.1 and 29.8, whose exact mean is above 10 and whose float mean is 10.
\<close>

lemma margin_suggestion_examples:
  "get_margin_suggestion (early_loop [12, 11, 13]) = Some (- 2 * MARGIN_ADJUST_STEP)"
  "get_margin_suggestion (early_loop [3, 4, 2]) = Some 0"
  "get_margin_suggestion (early_loop [3, 4]) = None"
  "get_margin_suggestion (early_loop [fl (1 / 10), fl (1 / 10), fl (298 / 10)])
     = Some (- MARGIN_ADJUST_STEP)"
  "10 < (fl (1 / 10) + fl (1 / 10) + fl (298 / 10)) / 3"
  "mean [fl (1 / 10), fl (1 / 10), fl (298 / 10)] = 10"
  by code_simp+

section \<open>Anticipation engine\<close>

text \<open>
  Claim C2. With the anti-short-cycle gate set, an evaluation of an idle engine returns
  the engine as it was and sends nothing, whatever the other inputs are: the engine is
  still idle after the call.
\<close>

theorem anti_cycle_gate_blocks_start:
  "\<not> active (state eng) \<Longrightarrow>
     async_evaluate eng hass pf now temp_indoor temp_outdoor mn next_consigne True tt margin
       = (eng, []) \<and>
     \<not> active (state (fst (async_evaluate eng hass pf now temp_indoor temp_outdoor mn
                              next_consigne True tt margin)))"
  by (simp add: async_evaluate_def Let_def)

lemma salon_engine_idle: "\<not> active (state salon_engine)"
  by (simp add: salon_engine_def AnticipationEngine_init_def AnticipationState_init_def)

text \<open>The same call with the gate open starts the cycle.\<close>

lemma salon_engine_starts_without_gate:
  "active (state (fst (async_evaluate salon_engine (preset_hass (preset_entity ''17'' 20 17) True)
     preset_pf 1800 (Some 18) (Some 5) (Some 30) (Some 20) False (Some 3600) (115 / 100))))"
  by (simp add: async_evaluate_def Let_def decide_start_def send_consigne_def preset_hass_def
        salon_engine_def AnticipationEngine_init_def AnticipationState_init_def)

theorem anti_cycle_gate_blocks_start_witness:
  "\<not> active (state salon_engine) \<and>
   \<not> active (state (fst (async_evaluate salon_engine (preset_hass (preset_entity ''17'' 20 17) True)
     preset_pf 1800 (Some 18) (Some 5) (Some 30) (Some 20) True (Some 3600) (115 / 100))))"
  using anti_cycle_gate_blocks_start [of salon_engine "preset_hass (preset_entity ''17'' 20 17) True"
          preset_pf 1800 "Some 18" "Some 5" "Some 30" "Some 20" "Some 3600" "115 / 100"]
        salon_engine_idle
  by simp




text \<open>
  The exact test of claim C5 implies the float test of the source on a float indoor
  temperature: the float 0.2 is above 1/5 and the rounding is monotone.
\<close>

lemma float_02: "2 / 10 \<le> fl (2 / 10)"
  by code_simp

lemma exact_reached_implies_float_reached:
  assumes "nc - 2 / 10 \<le> ti" and "fl ti = ti"
  shows "fsub nc (fl (2 / 10)) \<le> ti"
proof -
  have "nc - fl (2 / 10) \<le> ti" using assms(1) float_02 by linarith
  then have "fl (nc - fl (2 / 10)) \<le> fl ti" by (rule fl_mono)
  then show ?thesis unfolding fsub_def assms(2) .
qed

















section \<open>Preset strategy and fallback of the schedule parser\<close>

lemma exposed_value_preset:
  assumes "preset_attr_plain st k"
  shows "exposed_value pf st k k' = preset_value pf st k k'"
  using assms by (auto simp: exposed_value_def preset_value_def preset_attr_plain_def py_or_def)

lemma parse_vtherm_attrs_eq:
  "parse_vtherm_attrs pf st current =
     (case exposed_value pf st ''comfort_temp'' ''comfort'' of
        None \<Rightarrow> None
      | Some comfort \<Rightarrow>
          (case exposed_value pf st ''eco_temp'' ''eco'' of
             None \<Rightarrow> None
           | Some eco \<Rightarrow>
               if current \<le> fadd eco (fl (3 / 10)) \<and> fadd eco (fl (3 / 10)) < comfort
               then Some (vtherm_transition comfort current) else None))"
proof -
  have n: "\<And>v. v = PNone \<Longrightarrow> py_float pf v = None" by simp
  show ?thesis
    unfolding parse_vtherm_attrs_def exposed_value_def Let_def vtherm_transition_def
    by (auto simp: n split: option.splits)
qed

lemma get_next_after_events:
  assumes "sched_entity = Some ent" and "ent \<noteq> []" and "states hass ent = Some st"
    and "st_state st \<noteq> STATE_UNAVAILABLE" and "st_state st \<noteq> STATE_UNKNOWN"
    and "pf (st_state st) = Some current"
    and "parse_schedule_state resolve now st current = None"
  shows "get_next_heating_transition sched_entity hass pf resolve now =
           (case parse_vtherm_attrs pf st current of
              Some transition \<Rightarrow> Some transition
            | None \<Rightarrow> Some (fallback_transition current))"
  using assms
  by (simp add: get_next_heating_transition_def fallback_transition_def split: option.splits)

lemma vtherm_not_fallback:
  "vtherm_transition c current \<noteq> fallback_transition current'"
  "fallback_transition current' \<noteq> vtherm_transition c current"
  by (simp_all add: vtherm_transition_def fallback_transition_def)

lemma vtherm_inject: "(vtherm_transition c current = vtherm_transition c' current) = (c = c')"
  by (auto simp: vtherm_transition_def)

text \<open>The float sums \<open>eco + 0.3\<close> of the examples below.\<close>

lemma float_sums:
  "10 \<le> fadd 17 (fl (3 / 10))"
  "fadd 17 (fl (3 / 10)) < 20"
  "17 \<le> fadd 17 (fl (3 / 10))"
  "fl (83 / 10) \<le> fadd 8 (fl (3 / 10))"
  "fadd 8 (fl (3 / 10)) < 11"
  "\<not> fl (54 / 10) \<le> fadd (fl (51 / 10)) (fl (3 / 10))"
  by code_simp+

text \<open>
  Claim C9, amended. Let the schedule entity be available with a numeric state, the
  current setpoint, let the event-list strategy yield nothing, and let the attributes
  \<open>comfort_temp\<close> and \<open>eco_temp\<close> be plain. Then the result is the transition to
  comfort with no target time exactly when a comfort and an eco setpoint are both
  exposed, the current setpoint is at most eco + 0.3 and comfort is above eco + 0.3,
  the sum being the float sum of the source; and when no exposed comfort and eco meet
  this, the result is the fallback whose target and current value are the current
  setpoint, with no target time.
\<close>

theorem preset_strategy_then_fallback:
  assumes "sched_entity = Some ent" and "ent \<noteq> []" and "states hass ent = Some st"
    and "st_state st \<noteq> STATE_UNAVAILABLE" and "st_state st \<noteq> STATE_UNKNOWN"
    and "pf (st_state st) = Some current"
    and "parse_schedule_state resolve now st current = None"
    and "preset_attr_plain st ''comfort_temp''" and "preset_attr_plain st ''eco_temp''"
  shows "((get_next_heating_transition sched_entity hass pf resolve now
             = Some (vtherm_transition comfort current)) =
          (\<exists>eco. preset_value pf st ''comfort_temp'' ''comfort'' = Some comfort \<and>
                 preset_value pf st ''eco_temp'' ''eco'' = Some eco \<and>
                 current \<le> fadd eco (fl (3 / 10)) \<and> fadd eco (fl (3 / 10)) < comfort)) \<and>
         (\<not> (\<exists>c eco. preset_value pf st ''comfort_temp'' ''comfort'' = Some c \<and>
                      preset_value pf st ''eco_temp'' ''eco'' = Some eco \<and>
                      current \<le> fadd eco (fl (3 / 10)) \<and> fadd eco (fl (3 / 10)) < c) \<longrightarrow>
          get_next_heating_transition sched_entity hass pf resolve now
            = Some (fallback_transition current))"
proof -
  note g = get_next_after_events
             [of sched_entity ent hass st pf current resolve now, OF assms(1-7)]
  note c = exposed_value_preset [OF assms(8), of pf "''comfort''"]
  note e = exposed_value_preset [OF assms(9), of pf "''eco''"]
  show ?thesis
    unfolding g parse_vtherm_attrs_eq c e
    by (auto simp: vtherm_not_fallback vtherm_inject split: option.splits)
qed

text \<open>
  Claim C9 as stated fails: the source compares on one side only. A current setpoint of
  10 is not at or near an eco setpoint of 17, and the transition to the comfort setpoint
  of 20 is reported all the same.
\<close>

theorem preset_near_eco_counterexample:
  "preset_value preset_pf (preset_entity ''10'' 20 17) ''comfort_temp'' ''comfort'' = Some 20 \<and>
   preset_value preset_pf (preset_entity ''10'' 20 17) ''eco_temp'' ''eco'' = Some 17 \<and>
   parse_schedule_state no_events 0 (preset_entity ''10'' 20 17) 10 = None \<and>
   get_next_heating_transition (Some ''sensor.schedule'')
     (preset_hass (preset_entity ''10'' 20 17) True) preset_pf no_events 0
     = Some (vtherm_transition 20 10) \<and>
   \<not> at_or_near 10 17"
  using float_sums(1,2)
  by (simp add: get_next_heating_transition_def parse_schedule_state_def parse_vtherm_attrs_def
        preset_hass_def preset_entity_def preset_pf_def attrs_get_def py_or_def Let_def
        STATE_UNAVAILABLE_def STATE_UNKNOWN_def vtherm_transition_def at_or_near_def
        preset_value_def)

text \<open>
  An eco setpoint of 0 under \<open>eco_temp\<close> is passed over by \<open>attrs.get(k) or attrs.get(k')\<close>:
  with comfort 20 and the current setpoint at 0 the fallback is returned.
\<close>

lemma zero_eco_is_not_seen:
  "get_next_heating_transition (Some ''sensor.schedule'')
     (preset_hass (preset_entity ''0'' 20 0) True) preset_pf no_events 0
     = Some (fallback_transition 0)"
  by (simp add: get_next_heating_transition_def parse_schedule_state_def parse_vtherm_attrs_def
        preset_hass_def preset_entity_def preset_pf_def attrs_get_def py_or_def Let_def
        STATE_UNAVAILABLE_def STATE_UNKNOWN_def fallback_transition_def)

theorem preset_strategy_then_fallback_witness:
  "preset_attr_plain (preset_entity ''17'' 20 17) ''comfort_temp'' \<and>
   preset_attr_plain (preset_entity ''17'' 20 17) ''eco_temp'' \<and>
   preset_pf (st_state (preset_entity ''17'' 20 17)) = Some 17 \<and>
   parse_schedule_state no_events 0 (preset_entity ''17'' 20 17) 17 = None \<and>
   get_next_heating_transition (Some ''sensor.schedule'')
     (preset_hass (preset_entity ''17'' 20 17) True) preset_pf no_events 0
     = Some (vtherm_transition 20 17)"
proof -
  have ok: "preset_attr_plain (preset_entity ''17'' 20 17) ''comfort_temp''"
    "preset_attr_plain (preset_entity ''17'' 20 17) ''eco_temp''"
    by (simp_all add: preset_attr_plain_def preset_entity_def attrs_get_def)
  have st: "states (preset_hass (preset_entity ''17'' 20 17) True) ''sensor.schedule''
              = Some (preset_entity ''17'' 20 17)"
    by (simp add: preset_hass_def)
  have s1: "st_state (preset_entity ''17'' 20 17) \<noteq> STATE_UNAVAILABLE"
    and s2: "st_state (preset_entity ''17'' 20 17) \<noteq> STATE_UNKNOWN"
    by (simp_all add: preset_entity_def STATE_UNAVAILABLE_def STATE_UNKNOWN_def)
  have cur: "preset_pf (st_state (preset_entity ''17'' 20 17)) = Some 17"
    by (simp add: preset_entity_def preset_pf_def)
  have ev: "parse_schedule_state no_events 0 (preset_entity ''17'' 20 17) 17 = None"
    by (simp add: parse_schedule_state_def preset_entity_def attrs_get_def py_or_def)
  have pv: "preset_value preset_pf (preset_entity ''17'' 20 17) ''comfort_temp'' ''comfort'' = Some 20"
    "preset_value preset_pf (preset_entity ''17'' 20 17) ''eco_temp'' ''eco'' = Some 17"
    by (simp_all add: preset_value_def preset_entity_def attrs_get_def)
  have ne: "''sensor.schedule'' \<noteq> []" by simp
  from preset_strategy_then_fallback
         [of "Some ''sensor.schedule''" "''sensor.schedule''"
             "preset_hass (preset_entity ''17'' 20 17) True" "preset_entity ''17'' 20 17"
             preset_pf 17 no_events 0 20, OF refl ne st s1 s2 cur ev ok]
  have "get_next_heating_transition (Some ''sensor.schedule'')
     (preset_hass (preset_entity ''17'' 20 17) True) preset_pf no_events 0
     = Some (vtherm_transition 20 17)"
    using float_sums(2,3) by (simp add: pv)
  then show ?thesis using ok cur ev by simp
qed

text \<open>
  Two setpoints at the edge of the test. With the state text read as the float 8.3, eco 8
  and comfort 11, the float sum 8 + 0.3 is the float 8.3 and the transition is returned.
  With the state 5.4, eco 5.1 and comfort 8.1, the float sum 5.1 + 0.3 is below the float
  5.4 and the fallback is returned.
\<close>

lemma preset_edge_examples:
  "get_next_heating_transition (Some ''sensor.schedule'')
     (preset_hass (preset_entity ''8.3'' 11 8) True) preset_pf no_events 0
     = Some (vtherm_transition 11 (fl (83 / 10)))"
  "get_next_heating_transition (Some ''sensor.schedule'')
     (preset_hass (preset_entity ''5.4'' (fl (81 / 10)) (fl (51 / 10))) True) preset_pf no_events 0
     = Some (fallback_transition (fl (54 / 10)))"
  using float_sums(4,5,6) [simplified] fl_pos [of "81 / 10"] fl_pos [of "51 / 10"]
  by (simp_all add: get_next_heating_transition_def parse_schedule_state_def
        parse_vtherm_attrs_def preset_hass_def preset_entity_def preset_pf_def attrs_get_def
        py_or_def Let_def STATE_UNAVAILABLE_def STATE_UNKNOWN_def vtherm_transition_def
        fallback_transition_def)

end
